theory Spec2Isabelle
  imports Main "HOL-Library.Sublist"
begin

section \<open>The code review tool: state, file intake, credential store, analysis client\<close>

text \<open>
  The application is one React component, \<^verbatim>\<open>App\<close> in \<^verbatim>\<open>src/App.tsx\<close>. Its state is a
  handful of \<^verbatim>\<open>useState\<close> cells, one \<^verbatim>\<open>localStorage\<close> entry and the requests it sends.
  Every handler is modelled as a function from the state before the event to the state
  after it. An asynchronous handler is cut at its suspension point: one function for the
  part that runs when the event fires, one for the continuation that runs when the file
  reader or the network call settles.

  JavaScript strings are modelled as \<^typ>\<open>string\<close>, one \<^typ>\<open>char\<close> for each code unit
  below 256 (the Latin-1 range), which covers every literal the code matches on.
\<close>

subsection \<open>Data\<close>

text \<open>What the code reads of a browser \<^verbatim>\<open>File\<close>: its name and its size in bytes.\<close>

record file_handle =
  file_name :: string
  file_size :: nat

text \<open>One request body handed to \<^verbatim>\<open>fetch\<close>: the bearer header, the language named in
  the system message and the user message.\<close>

record request =
  authorization :: string
  review_language :: string
  user_content :: string

text \<open>
  The state cells of \<^verbatim>\<open>App\<close> that the handlers below read or write (\<^verbatim>\<open>showApiKey\<close> and
  \<^verbatim>\<open>dragActive\<close> only drive the markup), the \<^verbatim>\<open>deepseekApiKey\<close> entry of
  \<^verbatim>\<open>localStorage\<close>, and the log of the calls made to \<^verbatim>\<open>fetch\<close>. The type \<open>'j\<close> is the
  type of the values \<^verbatim>\<open>JSON.parse\<close> returns, \<^verbatim>\<open>null\<close> apart.
\<close>

record 'j app =
  apiKey :: string
  "file" :: "file_handle option"
  fileContent :: string
  fileLanguage :: string
  fileError :: string
  isAnalyzing :: bool
  analysisResults :: "'j option"
  analysisError :: string
  localStorage :: "string option"
  network :: "request list"

definition SUPPORTED_EXTENSIONS :: "(string \<times> string) list" where
  "SUPPORTED_EXTENSIONS =
    [(''.js'', ''JavaScript''), (''.ts'', ''TypeScript''), (''.jsx'', ''React JSX''),
     (''.tsx'', ''React TSX''), (''.py'', ''Python''), (''.java'', ''Java''),
     (''.cpp'', ''C++''), (''.c'', ''C''), (''.go'', ''Go''), (''.rb'', ''Ruby''),
     (''.php'', ''PHP''), (''.html'', ''HTML''), (''.css'', ''CSS''), (''.scss'', ''SCSS''),
     (''.json'', ''JSON''), (''.md'', ''Markdown''), (''.rs'', ''Rust''),
     (''.swift'', ''Swift''), (''.kt'', ''Kotlin''), (''.cs'', ''C#'')]"

definition MAX_FILE_SIZE :: nat where
  "MAX_FILE_SIZE = 5 * 1024 * 1024"

subsection \<open>Library functions of the platform\<close>

text \<open>\<^verbatim>\<open>Object.keys\<close> of the table, in insertion order.\<close>

definition keys :: "(string \<times> string) list \<Rightarrow> string list" where
  "keys table = map fst table"

text \<open>\<^verbatim>\<open>Array.prototype.join\<close>.\<close>

fun join :: "string \<Rightarrow> string list \<Rightarrow> string" where
  "join sep [] = []"
| "join sep [x] = x"
| "join sep (x # y # ys) = x @ sep @ join sep (y # ys)"

text \<open>\<^verbatim>\<open>String.prototype.split\<close> with a one-character separator: never an empty array.\<close>

fun split :: "char \<Rightarrow> string \<Rightarrow> string list" where
  "split d [] = [[]]"
| "split d (c # cs) =
     (if c = d then [] # split d cs
      else (case split d cs of [] \<Rightarrow> [[c]] | s # ss \<Rightarrow> (c # s) # ss))"

text \<open>\<^verbatim>\<open>String.prototype.toLowerCase\<close> on the Latin-1 range: the letters A to Z and the
  accented capitals 0xC0 to 0xDE (the multiplication sign 0xD7 apart) move up by 32.\<close>

definition lower_char :: "char \<Rightarrow> char" where
  "lower_char c =
     (let n = (of_char c :: nat)
      in if (65 \<le> n \<and> n \<le> 90) \<or> (192 \<le> n \<and> n \<le> 222 \<and> n \<noteq> 215)
         then char_of (n + 32) else c)"

definition toLowerCase :: "string \<Rightarrow> string" where
  "toLowerCase s = map lower_char s"

subsection \<open>File intake: \<^verbatim>\<open>handleFileChange\<close> and the file reader's callbacks\<close>

definition size_limit_error :: string where
  "size_limit_error = ''File size exceeds the maximum limit of 5MB''"

definition unsupported_type_error :: string where
  "unsupported_type_error =
     ''Unsupported file type. Supported types: '' @ join '', '' (keys SUPPORTED_EXTENSIONS)"

definition read_error :: string where
  "read_error = ''Error reading file''"

text \<open>
  The template \<^verbatim>\<open>`.${selectedFile.name.split('.').pop()?.toLowerCase()}`\<close>. The optional
  chain yields \<^verbatim>\<open>undefined\<close> for an empty array, which the template prints as a word.
\<close>

definition fileExtension :: "string \<Rightarrow> string" where
  "fileExtension name =
     CHR ''.'' # (case rev (split (CHR ''.'') name) of
                   [] \<Rightarrow> ''undefined''
                 | last_part # _ \<Rightarrow> toLowerCase last_part)"

text \<open>\<^verbatim>\<open>SUPPORTED_EXTENSIONS[fileExtension] || 'Unknown'\<close>.\<close>

definition language_label :: "string \<Rightarrow> string" where
  "language_label ext =
     (case map_of SUPPORTED_EXTENSIONS ext of
        None \<Rightarrow> ''Unknown''
      | Some label \<Rightarrow> if label = [] then ''Unknown'' else label)"

text \<open>
  The part of \<^verbatim>\<open>handleFileChange\<close> that runs when a file is picked or dropped. The
  second component of the result tells whether \<^verbatim>\<open>reader.readAsText\<close> was reached.
\<close>

definition handleFileChange :: "file_handle \<Rightarrow> 'j app \<Rightarrow> 'j app \<times> bool" where
  "handleFileChange selectedFile st =
     (let st1 = st\<lparr>fileError := []\<rparr>
      in if file_size selectedFile > MAX_FILE_SIZE
         then (st1\<lparr>fileError := size_limit_error\<rparr>, False)
         else if fileExtension (file_name selectedFile) \<notin> set (keys SUPPORTED_EXTENSIONS)
         then (st1\<lparr>fileError := unsupported_type_error\<rparr>, False)
         else (st1\<lparr>file := Some selectedFile,
                   fileLanguage := language_label (fileExtension (file_name selectedFile))\<rparr>,
               True))"

text \<open>How the read started by \<^verbatim>\<open>readAsText\<close> ends: \<^verbatim>\<open>onload\<close> with the decoded text, or
  \<^verbatim>\<open>onerror\<close>.\<close>

datatype read_outcome = Loaded string | ReadFailed

fun reader_settled :: "read_outcome \<Rightarrow> 'j app \<Rightarrow> 'j app" where
  "reader_settled (Loaded content) st = st\<lparr>fileContent := content\<rparr>"
| "reader_settled ReadFailed st = st\<lparr>fileError := read_error\<rparr>"

text \<open>An ingestion from selection to the end of the read, with nothing in between.\<close>

definition ingest :: "file_handle \<Rightarrow> read_outcome \<Rightarrow> 'j app \<Rightarrow> 'j app" where
  "ingest selectedFile outcome st =
     (case handleFileChange selectedFile st of
        (st', True) \<Rightarrow> reader_settled outcome st'
      | (st', False) \<Rightarrow> st')"

text \<open>\<^verbatim>\<open>handleClearFile\<close>; resetting the input element's value is outside the state.\<close>

definition handleClearFile :: "'j app \<Rightarrow> 'j app" where
  "handleClearFile st =
     st\<lparr>file := None, fileContent := [], fileLanguage := [],
        analysisResults := None, analysisError := []\<rparr>"

text \<open>The values of the \<^verbatim>\<open>useState\<close> cells before the first render, beside the browser's
  storage as the page finds it.\<close>

definition initial :: "string option \<Rightarrow> 'j app" where
  "initial stored =
     \<lparr>apiKey = [], file = None, fileContent = [], fileLanguage = [], fileError = [],
      isAnalyzing = False, analysisResults = None, analysisError = [],
      localStorage = stored, network = []\<rparr>"

subsection \<open>Credential store: the two effects and \<^verbatim>\<open>handleClearApiKey\<close>\<close>

text \<open>The effect with dependency \<^verbatim>\<open>[apiKey]\<close>:
  \<^verbatim>\<open>if (apiKey) localStorage.setItem('deepseekApiKey', apiKey)\<close>.\<close>

definition persist_effect :: "'j app \<Rightarrow> 'j app" where
  "persist_effect st =
     (if apiKey st \<noteq> [] then st\<lparr>localStorage := Some (apiKey st)\<rparr> else st)"

text \<open>
  \<^verbatim>\<open>setApiKey(v)\<close> together with the render it causes. React keeps the cell and runs no
  effect when \<^verbatim>\<open>v\<close> is the value the cell holds; otherwise the effect above runs with
  the new value.
\<close>

definition setApiKey :: "string \<Rightarrow> 'j app \<Rightarrow> 'j app" where
  "setApiKey v st = (if v = apiKey st then st else persist_effect (st\<lparr>apiKey := v\<rparr>))"

text \<open>\<^verbatim>\<open>handleClearApiKey\<close>: the entry is removed in the handler, the render follows.\<close>

definition handleClearApiKey :: "'j app \<Rightarrow> 'j app" where
  "handleClearApiKey st = setApiKey [] (st\<lparr>localStorage := None\<rparr>)"

text \<open>
  Mounting the component on a browser whose storage holds \<open>stored\<close>: the first effect
  reads the entry and sets the key when the entry is a non-empty string; the second
  effect runs once with the initial, empty key and again after the key was set.
\<close>

definition mount :: "string option \<Rightarrow> 'j app" where
  "mount stored =
     (let st = persist_effect (initial stored)
      in case stored of
           None \<Rightarrow> st
         | Some savedApiKey \<Rightarrow> if savedApiKey \<noteq> [] then setApiKey savedApiKey st else st)"

subsection \<open>Analysis client: locating the payload in the reply\<close>

text \<open>The text before and the text after the leftmost occurrence of a pattern.\<close>

fun split_at_first :: "string \<Rightarrow> string \<Rightarrow> (string \<times> string) option" where
  "split_at_first pat [] = (if pat = [] then Some ([], []) else None)"
| "split_at_first pat (c # cs) =
     (if prefix pat (c # cs) then Some ([], drop (length pat) (c # cs))
      else map_option (\<lambda>(before, after). (c # before, after)) (split_at_first pat cs))"

text \<open>What \<^verbatim>\<open>String.prototype.match\<close> returns for a regular expression without the
  global flag: element 0 is the matched text, element 1 the first group when the
  expression has one.\<close>

record regex_match =
  matched :: string
  group1 :: "string option"

definition fence_open :: string where
  "fence_open = ''```json'' @ [CHR 0x0A]"

definition fence_close :: string where
  "fence_close = CHR 0x0A # ''```''"

text \<open>
  The expression \<^verbatim>\<open>/```json\n([\s\S]*?)\n```/\<close>. The class \<^verbatim>\<open>[\s\S]\<close> takes any character
  and the quantifier is lazy, so a match starts at the leftmost opening fence and its
  group ends at the first closing fence that begins at or after the end of the opening
  one. When no closing fence follows the leftmost opening fence, none follows a later
  opening fence either, and there is no match.
\<close>

definition match_fenced :: "string \<Rightarrow> regex_match option" where
  "match_fenced resultText =
     (case split_at_first fence_open resultText of
        None \<Rightarrow> None
      | Some (_, rest) \<Rightarrow>
          (case split_at_first fence_close rest of
             None \<Rightarrow> None
           | Some (inner, _) \<Rightarrow>
               Some \<lparr>matched = fence_open @ inner @ fence_close, group1 = Some inner\<rparr>))"

text \<open>
  The expression \<^verbatim>\<open>/{[\s\S]*}/\<close>. The quantifier is greedy: a match starts at the
  leftmost opening brace and runs to the last closing brace after it. The expression
  has no group.
\<close>

definition match_braces :: "string \<Rightarrow> regex_match option" where
  "match_braces resultText =
     (case dropWhile (\<lambda>c. c \<noteq> CHR ''{'') resultText of
        [] \<Rightarrow> None
      | brace # rest \<Rightarrow>
          (case rev (dropWhile (\<lambda>c. c \<noteq> CHR ''}'') (rev rest)) of
             [] \<Rightarrow> None
           | body \<Rightarrow> Some \<lparr>matched = brace # body, group1 = None\<rparr>))"

text \<open>
  \<^verbatim>\<open>jsonMatch = a || b\<close> and \<^verbatim>\<open>jsonMatch ? jsonMatch[1] || jsonMatch[0] : resultText\<close>.
  The empty string is falsy, so an empty group gives way to element 0.
\<close>

definition jsonMatch :: "string \<Rightarrow> regex_match option" where
  "jsonMatch resultText =
     (case match_fenced resultText of
        Some m \<Rightarrow> Some m
      | None \<Rightarrow> match_braces resultText)"

definition jsonContent :: "string \<Rightarrow> string" where
  "jsonContent resultText =
     (case jsonMatch resultText of
        None \<Rightarrow> resultText
      | Some m \<Rightarrow>
          (case group1 m of
             None \<Rightarrow> matched m
           | Some g \<Rightarrow> if g \<noteq> [] then g else matched m))"

subsection \<open>Analysis client: \<^verbatim>\<open>analyzeCode\<close>\<close>

definition missing_key_error :: string where
  "missing_key_error = ''Please enter your Deepseek API key''"

definition missing_file_error :: string where
  "missing_file_error = ''Please upload a file to analyze''"

definition parse_error :: string where
  "parse_error = ''Error parsing analysis results. Please try again.''"

text \<open>A value that was thrown: an \<^verbatim>\<open>Error\<close> with its message, or something else.\<close>

datatype thrown = ErrorObject string | OtherValue

text \<open>\<^verbatim>\<open>error instanceof Error ? error.message : 'Unknown error'\<close>.\<close>

fun error_message :: "thrown \<Rightarrow> string" where
  "error_message (ErrorObject message) = message"
| "error_message OtherValue = ''Unknown error''"

text \<open>
  What \<^verbatim>\<open>JSON.parse\<close> does with a text: it throws, or it returns a value, where
  \<^verbatim>\<open>null\<close> is the value that the results cell holds when it is unset. The parser belongs
  to the platform; the functions below take it as the argument \<open>parse\<close>.
\<close>

datatype 'j parsed = SyntaxError | Parsed "'j option"

text \<open>
  What the code can observe of the body of a response: \<^verbatim>\<open>response.json()\<close> rejects;
  or the body is JSON and \<^verbatim>\<open>data.choices[0].message.content\<close> throws or is no string,
  so that reading it or calling \<^verbatim>\<open>match\<close> on it throws a \<^verbatim>\<open>TypeError\<close>; or the
  body is JSON and carries a reply text.
\<close>

datatype response_body = JsonRejects thrown | NoReplyText | ReplyText string

text \<open>How the call to \<^verbatim>\<open>fetch\<close> settles: it rejects, or it resolves to a response with
  a status, a status text and a body.\<close>

datatype fetch_result = Rejected thrown | Responded nat string response_body

text \<open>\<^verbatim>\<open>response.ok\<close>: the status is in the range 200 to 299.\<close>

definition response_ok :: "nat \<Rightarrow> bool" where
  "response_ok status = (200 \<le> status \<and> status \<le> 299)"

text \<open>A number in a template string: its decimal digits.\<close>

fun decimal :: "nat \<Rightarrow> string" where
  "decimal n =
     (if n < 10 then [''0123456789'' ! n]
      else decimal (n div 10) @ [''0123456789'' ! (n mod 10)])"

declare decimal.simps [simp del]

definition build_request :: "'j app \<Rightarrow> request" where
  "build_request st =
     \<lparr>authorization = ''Bearer '' @ apiKey st,
      review_language = fileLanguage st,
      user_content = fileContent st\<rparr>"

text \<open>
  \<^verbatim>\<open>analyzeCode\<close> up to its first \<^verbatim>\<open>await\<close>. The second component of the result tells
  whether \<^verbatim>\<open>fetch\<close> was called; the call is appended to the log.
\<close>

definition analyzeCode :: "'j app \<Rightarrow> 'j app \<times> bool" where
  "analyzeCode st =
     (if apiKey st = [] then (st\<lparr>analysisError := missing_key_error\<rparr>, False)
      else if fileContent st = [] then (st\<lparr>analysisError := missing_file_error\<rparr>, False)
      else (st\<lparr>isAnalyzing := True, analysisError := [], analysisResults := None,
               network := network st @ [build_request st]\<rparr>,
            True))"

text \<open>The outer \<^verbatim>\<open>catch\<close> clause.\<close>

definition caught :: "thrown \<Rightarrow> 'j app \<Rightarrow> 'j app" where
  "caught e st = st\<lparr>analysisError := ''Error analyzing code: '' @ error_message e\<rparr>"

text \<open>
  The rest of \<^verbatim>\<open>analyzeCode\<close>, from the moment the call to \<^verbatim>\<open>fetch\<close> settles: the
  \<^verbatim>\<open>try\<close> block with its inner \<^verbatim>\<open>try\<close>, the two \<^verbatim>\<open>catch\<close> clauses and \<^verbatim>\<open>finally\<close>.
\<close>

definition analyzeCode_settled ::
  "(string \<Rightarrow> 'j parsed) \<Rightarrow> fetch_result \<Rightarrow> 'j app \<Rightarrow> 'j app" where
  "analyzeCode_settled parse result st =
     (let st' =
        (case result of
           Rejected e \<Rightarrow> caught e st
         | Responded status statusText body \<Rightarrow>
             if \<not> response_ok status
             then caught (ErrorObject (''API error: '' @ decimal status @ '' '' @ statusText)) st
             else (case body of
                     JsonRejects e \<Rightarrow> caught e st
                   | NoReplyText \<Rightarrow> st\<lparr>analysisError := parse_error\<rparr>
                   | ReplyText resultText \<Rightarrow>
                       (case parse (jsonContent resultText) of
                          SyntaxError \<Rightarrow> st\<lparr>analysisError := parse_error\<rparr>
                        | Parsed parsedResults \<Rightarrow> st\<lparr>analysisResults := parsedResults\<rparr>)))
      in st'\<lparr>isAnalyzing := False\<rparr>)"

subsection \<open>Renders, the button and the component as an event loop\<close>

text \<open>
  A handler writes the cells at once; React commits the render that shows them later,
  and other events can be dispatched before it does. A page is therefore two copies of
  the cells: \<open>cells\<close>, as the handlers have left them (with the storage and the log), and
  \<open>shown\<close>, as the last committed render saw them. The markup and the closures of the
  handlers belong to that render.
\<close>

record 'j page =
  cells :: "'j app"
  shown :: "'j app"

text \<open>A page whose last render shows the cells as they are.\<close>

definition settled :: "'j app \<Rightarrow> 'j page" where
  "settled st = \<lparr>cells = st, shown = st\<rparr>"

text \<open>
  \<^verbatim>\<open>analyzeCode\<close> is created anew by every render: it reads \<^verbatim>\<open>apiKey\<close>, \<^verbatim>\<open>fileContent\<close>
  and \<^verbatim>\<open>fileLanguage\<close> as that render saw them, and its setters write the cells as they
  are when it runs. \<open>analyzeCode_of shown st\<close> is the function of the render that saw
  \<open>shown\<close>, called when the cells hold \<open>st\<close>, up to its first \<^verbatim>\<open>await\<close>. It never reads
  \<^verbatim>\<open>isAnalyzing\<close>. \<open>analyzeCode st\<close> above is \<open>analyzeCode_of st st\<close>.
\<close>

definition analyzeCode_of :: "'j app \<Rightarrow> 'j app \<Rightarrow> 'j app \<times> bool" where
  "analyzeCode_of shown_cells st =
     (if apiKey shown_cells = [] then (st\<lparr>analysisError := missing_key_error\<rparr>, False)
      else if fileContent shown_cells = []
      then (st\<lparr>analysisError := missing_file_error\<rparr>, False)
      else (st\<lparr>isAnalyzing := True, analysisError := [], analysisResults := None,
               network := network st @ [build_request shown_cells]\<rparr>,
            True))"

text \<open>The button that calls \<^verbatim>\<open>analyzeCode\<close>:
  \<^verbatim>\<open>disabled={!fileContent || !apiKey || isAnalyzing}\<close>, an attribute written by the
  render.\<close>

definition analyze_disabled :: "'j app \<Rightarrow> bool" where
  "analyze_disabled st = (fileContent st = [] \<or> apiKey st = [] \<or> isAnalyzing st)"

text \<open>
  A click on the button. The attribute is the one the last committed render wrote: a
  click on a disabled button calls nothing, a click on an enabled one calls the
  \<^verbatim>\<open>analyzeCode\<close> of that render. The second component of the result tells whether
  \<^verbatim>\<open>fetch\<close> was called.
\<close>

definition click_analyze :: "'j page \<Rightarrow> 'j page \<times> bool" where
  "click_analyze p =
     (if analyze_disabled (shown p) then (p, False)
      else (case analyzeCode_of (shown p) (cells p) of
              (st, sent) \<Rightarrow> (p\<lparr>cells := st\<rparr>, sent)))"

text \<open>
  The events the component reacts to: input in the key field, the two clear buttons, a
  file picked or dropped, the file reader settling, a click on the analyze button, the
  network call settling, and a render being committed. Input in the key field and the
  key's clear button write the cells through \<open>setApiKey\<close> and \<open>handleClearApiKey\<close> above,
  which run the persisting effect with the write.
\<close>

datatype event =
    KeyInput string
  | ClearKeyClicked
  | FileChosen file_handle
  | ReaderSettled read_outcome
  | ClearFileClicked
  | AnalyzeClicked
  | FetchSettled fetch_result
  | Rendered

fun react :: "(string \<Rightarrow> 'j parsed) \<Rightarrow> event \<Rightarrow> 'j page \<Rightarrow> 'j page" where
  "react parse (KeyInput v) p = p\<lparr>cells := setApiKey v (cells p)\<rparr>"
| "react parse ClearKeyClicked p = p\<lparr>cells := handleClearApiKey (cells p)\<rparr>"
| "react parse (FileChosen f) p = p\<lparr>cells := fst (handleFileChange f (cells p))\<rparr>"
| "react parse (ReaderSettled outcome) p = p\<lparr>cells := reader_settled outcome (cells p)\<rparr>"
| "react parse ClearFileClicked p = p\<lparr>cells := handleClearFile (cells p)\<rparr>"
| "react parse AnalyzeClicked p = fst (click_analyze p)"
| "react parse (FetchSettled result) p =
     p\<lparr>cells := analyzeCode_settled parse result (cells p)\<rparr>"
| "react parse Rendered p = p\<lparr>shown := cells p\<rparr>"

fun run :: "(string \<Rightarrow> 'j parsed) \<Rightarrow> event list \<Rightarrow> 'j page \<Rightarrow> 'j page" where
  "run parse [] p = p"
| "run parse (e # es) p = run parse es (react parse e p)"

fun is_fetch_settled :: "event \<Rightarrow> bool" where
  "is_fetch_settled (FetchSettled _) = True"
| "is_fetch_settled _ = False"

subsection \<open>Predicates and sample inputs used in the statements below\<close>

text \<open>The key cell is empty, or the storage entry holds the value of the key cell.\<close>

definition key_persisted :: "'j app \<Rightarrow> bool" where
  "key_persisted st = (apiKey st = [] \<or> localStorage st = Some (apiKey st))"

text \<open>Two source files, and a parser that accepts one text and returns it as the value;
  \<^verbatim>\<open>JSON.parse\<close> accepts the text \<^verbatim>\<open>{}\<close>.\<close>

definition main_py :: file_handle where
  "main_py = \<lparr>file_name = ''main.py'', file_size = 120\<rparr>"

definition util_js :: file_handle where
  "util_js = \<lparr>file_name = ''util.js'', file_size = 80\<rparr>"

definition accept_only :: "string \<Rightarrow> string \<Rightarrow> string parsed" where
  "accept_only good s = (if s = good then Parsed (Some s) else SyntaxError)"

text \<open>The state of a page on which the key \<^verbatim>\<open>sk-abc\<close> was typed and \<^verbatim>\<open>main.py\<close> was
  read.\<close>

definition ready :: "'j app" where
  "ready =
     \<lparr>apiKey = ''sk-abc'', file = Some main_py, fileContent = ''x = 1'',
      fileLanguage = ''Python'', fileError = [], isAnalyzing = False,
      analysisResults = None, analysisError = [], localStorage = Some ''sk-abc'',
      network = []\<rparr>"

text \<open>
  The shapes of reply text that the two expressions look for, stated on the text alone:
  an opening fence, any text, a closing fence; an opening brace with a closing brace
  somewhere after it.
\<close>

definition has_fenced_block :: "string \<Rightarrow> bool" where
  "has_fenced_block t =
     (\<exists>before inner after. t = before @ fence_open @ inner @ fence_close @ after)"

definition has_brace_span :: "string \<Rightarrow> bool" where
  "has_brace_span t = (\<exists>before mid after. t = before @ CHR ''{'' # mid @ CHR ''}'' # after)"

text \<open>
  The first top-level \<^verbatim>\<open>{...}\<close> span of a text, read as the words say: from the first
  opening brace to the closing brace that balances it. \<open>balanced_rest depth\<close> scans
  the text after an opening brace, \<open>depth\<close> counting the inner braces still open.
\<close>

fun balanced_rest :: "nat \<Rightarrow> string \<Rightarrow> string option" where
  "balanced_rest depth [] = None"
| "balanced_rest depth (c # cs) =
     (if c = CHR ''}'' then
        (if depth = 0 then Some [c] else map_option ((#) c) (balanced_rest (depth - 1) cs))
      else if c = CHR ''{'' then map_option ((#) c) (balanced_rest (Suc depth) cs)
      else map_option ((#) c) (balanced_rest depth cs))"

definition first_top_level_span :: "string \<Rightarrow> string option" where
  "first_top_level_span t =
     (case dropWhile (\<lambda>c. c \<noteq> CHR ''{'') t of
        [] \<Rightarrow> None
      | brace # rest \<Rightarrow> map_option ((#) brace) (balanced_rest 0 rest))"

section \<open>Properties of file intake\<close>

subsection \<open>Facts about the constants and the library functions\<close>

lemma MAX_FILE_SIZE_value: "MAX_FILE_SIZE = 5242880"
  by (simp add: MAX_FILE_SIZE_def)

lemma split_without_separator: "d \<notin> set s \<Longrightarrow> split d s = [s]"
  by (induction s) auto

lemma fileExtension_without_dot:
  "CHR ''.'' \<notin> set name \<Longrightarrow> fileExtension name = CHR ''.'' # toLowerCase name"
  by (simp add: fileExtension_def split_without_separator)

lemma unsupported_type_error_value:
  "unsupported_type_error =
     ''Unsupported file type. Supported types: .js, .ts, .jsx, .tsx, .py, .java, .cpp, .c, .go, .rb, .php, .html, .css, .scss, .json, .md, .rs, .swift, .kt, .cs''"
  by (simp add: unsupported_type_error_def keys_def SUPPORTED_EXTENSIONS_def)

lemma file_errors_distinct:
  "size_limit_error \<noteq> unsupported_type_error"
  "size_limit_error \<noteq> read_error"
  "unsupported_type_error \<noteq> read_error"
  "size_limit_error \<noteq> []" "unsupported_type_error \<noteq> []" "read_error \<noteq> []"
  by (simp_all add: unsupported_type_error_value size_limit_error_def read_error_def)

lemma dotted_key_iff:
  "CHR ''.'' # s \<in> set (keys SUPPORTED_EXTENSIONS) \<longleftrightarrow>
   s \<in> set (map tl (keys SUPPORTED_EXTENSIONS))"
  by (simp add: keys_def SUPPORTED_EXTENSIONS_def)

lemma extension_of_notes_txt: "fileExtension ''notes.txt'' = ''.txt''"
  by code_simp

lemma extension_of_tool_exe: "fileExtension ''tool.exe'' = ''.exe''"
  by code_simp

lemma extension_of_main_py: "fileExtension ''main.py'' = ''.py''"
  by code_simp

lemma label_of_py: "language_label ''.py'' = ''Python''"
  by (simp add: language_label_def SUPPORTED_EXTENSIONS_def)

subsection \<open>The three ways out of \<^verbatim>\<open>handleFileChange\<close>\<close>

lemma handleFileChange_too_large:
  "MAX_FILE_SIZE < file_size f \<Longrightarrow>
   handleFileChange f st = (st\<lparr>fileError := size_limit_error\<rparr>, False)"
  by (simp add: handleFileChange_def)

lemma handleFileChange_unsupported:
  "file_size f \<le> MAX_FILE_SIZE \<Longrightarrow>
   fileExtension (file_name f) \<notin> set (keys SUPPORTED_EXTENSIONS) \<Longrightarrow>
   handleFileChange f st = (st\<lparr>fileError := unsupported_type_error\<rparr>, False)"
  by (simp add: handleFileChange_def)

lemma handleFileChange_accepted:
  "file_size f \<le> MAX_FILE_SIZE \<Longrightarrow>
   fileExtension (file_name f) \<in> set (keys SUPPORTED_EXTENSIONS) \<Longrightarrow>
   handleFileChange f st =
     (st\<lparr>fileError := [], file := Some f,
         fileLanguage := language_label (fileExtension (file_name f))\<rparr>, True)"
  by (simp add: handleFileChange_def)

lemma ingest_rejected:
  "handleFileChange f st = (st', False) \<Longrightarrow> ingest f outcome st = st'"
  by (simp add: ingest_def)

lemma ingest_read_failed:
  "file_size f \<le> MAX_FILE_SIZE \<Longrightarrow>
   fileExtension (file_name f) \<in> set (keys SUPPORTED_EXTENSIONS) \<Longrightarrow>
   ingest f ReadFailed st =
     st\<lparr>fileError := read_error, file := Some f,
        fileLanguage := language_label (fileExtension (file_name f))\<rparr>"
  by (simp add: ingest_def handleFileChange_accepted)

lemma ingest_loaded:
  "file_size f \<le> MAX_FILE_SIZE \<Longrightarrow>
   fileExtension (file_name f) \<in> set (keys SUPPORTED_EXTENSIONS) \<Longrightarrow>
   ingest f (Loaded content) st =
     st\<lparr>fileError := [], file := Some f,
        fileLanguage := language_label (fileExtension (file_name f)),
        fileContent := content\<rparr>"
  by (simp add: ingest_def handleFileChange_accepted)

subsection \<open>The size limit\<close>

text \<open>
  C9. A file of more than 5,242,880 bytes is rejected. The handler stops at the size
  check: the only cell it writes is the file error, which becomes the size-limit
  message; the file, its language label and its text stay as they were (unset when
  nothing was ingested before), and no read is started, whatever the file's name.
\<close>

theorem oversized_file_rejected:
  assumes "5242880 < file_size f"
  shows "handleFileChange f st = (st\<lparr>fileError := size_limit_error\<rparr>, False) \<and>
         ingest f outcome st = st\<lparr>fileError := size_limit_error\<rparr>"
  using assms by (simp add: ingest_rejected handleFileChange_too_large MAX_FILE_SIZE_value)

theorem oversized_file_rejected_witness:
  "5242880 < file_size \<lparr>file_name = ''big.py'', file_size = 5242881\<rparr> \<and>
   file (ingest \<lparr>file_name = ''big.py'', file_size = 5242881\<rparr> (Loaded ''x = 1'')
          (initial None :: unit app)) = None \<and>
   fileError (ingest \<lparr>file_name = ''big.py'', file_size = 5242881\<rparr> (Loaded ''x = 1'')
          (initial None :: unit app)) = size_limit_error"
  using oversized_file_rejected
    [of "\<lparr>file_name = ''big.py'', file_size = 5242881\<rparr>" "initial None :: unit app"
        "Loaded ''x = 1''"]
  by (simp add: initial_def)

text \<open>The limit itself is allowed: a supported file of exactly 5,242,880 bytes is
  accepted.\<close>

lemma file_at_limit_accepted:
  "handleFileChange \<lparr>file_name = ''main.py'', file_size = 5242880\<rparr> (initial None :: unit app) =
     ((initial None)\<lparr>file := Some \<lparr>file_name = ''main.py'', file_size = 5242880\<rparr>,
                      fileLanguage := ''Python''\<rparr>, True)"
  by (simp add: handleFileChange_def MAX_FILE_SIZE_value extension_of_main_py label_of_py
      keys_def SUPPORTED_EXTENSIONS_def initial_def)

subsection \<open>Unsupported file types\<close>

text \<open>
  The size check comes first. A file that is both too large and of an unsupported type
  gets the size-limit message, not the unsupported-type message.
\<close>

theorem unsupported_and_oversized_counterexample:
  "fileExtension (file_name \<lparr>file_name = ''tool.exe'', file_size = 6000000\<rparr>)
     \<notin> set (keys SUPPORTED_EXTENSIONS) \<and>
   fileError (ingest \<lparr>file_name = ''tool.exe'', file_size = 6000000\<rparr> (Loaded ''MZ'')
          (initial None :: unit app)) = size_limit_error \<and>
   fileError (ingest \<lparr>file_name = ''tool.exe'', file_size = 6000000\<rparr> (Loaded ''MZ'')
          (initial None :: unit app)) \<noteq> unsupported_type_error"
proof -
  have "ingest \<lparr>file_name = ''tool.exe'', file_size = 6000000\<rparr> (Loaded ''MZ'')
          (initial None :: unit app) = (initial None)\<lparr>fileError := size_limit_error\<rparr>"
    by (simp add: ingest_rejected handleFileChange_too_large MAX_FILE_SIZE_value)
  then show ?thesis
    by (simp add: extension_of_tool_exe keys_def SUPPORTED_EXTENSIONS_def file_errors_distinct)
qed

text \<open>
  C2, for files within the size limit. A file of at most 5,242,880 bytes whose extension
  is not a key of the table is rejected: the only cell the handler writes is the file
  error, which becomes the unsupported-type message; the file, its language label and
  its text stay as they were, and no read is started.
\<close>

theorem unsupported_type_rejected:
  assumes "file_size f \<le> 5242880"
    and "fileExtension (file_name f) \<notin> set (keys SUPPORTED_EXTENSIONS)"
  shows "handleFileChange f st = (st\<lparr>fileError := unsupported_type_error\<rparr>, False) \<and>
         ingest f outcome st = st\<lparr>fileError := unsupported_type_error\<rparr>"
  using assms by (simp add: ingest_rejected handleFileChange_unsupported MAX_FILE_SIZE_value)

theorem unsupported_type_rejected_witness:
  "file_size \<lparr>file_name = ''notes.txt'', file_size = 12\<rparr> \<le> 5242880 \<and>
   fileExtension (file_name \<lparr>file_name = ''notes.txt'', file_size = 12\<rparr>)
     \<notin> set (keys SUPPORTED_EXTENSIONS) \<and>
   file (ingest \<lparr>file_name = ''notes.txt'', file_size = 12\<rparr> (Loaded ''hello'')
          (initial None :: unit app)) = None \<and>
   fileError (ingest \<lparr>file_name = ''notes.txt'', file_size = 12\<rparr> (Loaded ''hello'')
          (initial None :: unit app)) = unsupported_type_error"
  using unsupported_type_rejected
    [of "\<lparr>file_name = ''notes.txt'', file_size = 12\<rparr>" "initial None :: unit app"
        "Loaded ''hello''"]
  by (simp add: initial_def extension_of_notes_txt keys_def SUPPORTED_EXTENSIONS_def)

subsection \<open>Names without a dot\<close>

lemma extension_of_js: "fileExtension ''js'' = ''.js''"
  by code_simp

lemma lower_of_Makefile: "toLowerCase ''Makefile'' = ''makefile''"
  by code_simp

lemma lower_of_js: "toLowerCase ''js'' = ''js''"
  by code_simp

lemma label_of_js: "language_label ''.js'' = ''JavaScript''"
  by (simp add: language_label_def SUPPORTED_EXTENSIONS_def)

text \<open>
  A file named \<^verbatim>\<open>js\<close> has no dot in its name. \<^verbatim>\<open>split\<close> returns the whole name as
  the only part, the computed extension is \<^verbatim>\<open>.js\<close>, a key of the table, and the file is
  accepted as JavaScript.
\<close>

theorem dotless_name_counterexample:
  "CHR ''.'' \<notin> set (file_name \<lparr>file_name = ''js'', file_size = 10\<rparr>) \<and>
   file_size \<lparr>file_name = ''js'', file_size = 10\<rparr> \<le> 5242880 \<and>
   handleFileChange \<lparr>file_name = ''js'', file_size = 10\<rparr> (initial None :: unit app) =
     ((initial None)\<lparr>file := Some \<lparr>file_name = ''js'', file_size = 10\<rparr>,
                      fileLanguage := ''JavaScript''\<rparr>, True) \<and>
   fileError (fst (handleFileChange \<lparr>file_name = ''js'', file_size = 10\<rparr>
                     (initial None :: unit app))) \<noteq> unsupported_type_error"
proof -
  have "handleFileChange \<lparr>file_name = ''js'', file_size = 10\<rparr> (initial None :: unit app) =
     ((initial None)\<lparr>file := Some \<lparr>file_name = ''js'', file_size = 10\<rparr>,
                      fileLanguage := ''JavaScript''\<rparr>, True)"
    by (simp add: handleFileChange_def MAX_FILE_SIZE_value extension_of_js label_of_js
        keys_def SUPPORTED_EXTENSIONS_def initial_def)
  then show ?thesis
    by (simp add: initial_def file_errors_distinct(5) [symmetric])
qed

text \<open>
  C10, as the code has it. For a file within the size limit whose name has no dot, the
  extension is a dot followed by the whole lowercased name. The file is rejected with
  the unsupported-type message unless the lowercased name is one of the table's keys
  without its dot (\<^verbatim>\<open>js\<close>, \<^verbatim>\<open>ts\<close>, ..., \<^verbatim>\<open>cs\<close>); in that case it is accepted under that
  key's label.
\<close>

theorem dotless_name_extension:
  assumes "CHR ''.'' \<notin> set (file_name f)" and "file_size f \<le> 5242880"
  shows "fileExtension (file_name f) = CHR ''.'' # toLowerCase (file_name f) \<and>
         (toLowerCase (file_name f) \<notin> set (map tl (keys SUPPORTED_EXTENSIONS)) \<longrightarrow>
            handleFileChange f st = (st\<lparr>fileError := unsupported_type_error\<rparr>, False)) \<and>
         (toLowerCase (file_name f) \<in> set (map tl (keys SUPPORTED_EXTENSIONS)) \<longrightarrow>
            handleFileChange f st =
              (st\<lparr>fileError := [], file := Some f,
                  fileLanguage := language_label (CHR ''.'' # toLowerCase (file_name f))\<rparr>,
               True))"
proof -
  have ext: "fileExtension (file_name f) = CHR ''.'' # toLowerCase (file_name f)"
    using assms(1) by (rule fileExtension_without_dot)
  have small: "file_size f \<le> MAX_FILE_SIZE"
    using assms(2) by (simp add: MAX_FILE_SIZE_value)
  show ?thesis
    using handleFileChange_unsupported [OF small, of st]
      handleFileChange_accepted [OF small, of st]
    by (simp add: ext dotted_key_iff)
qed

theorem dotless_name_extension_witness:
  "CHR ''.'' \<notin> set (file_name \<lparr>file_name = ''Makefile'', file_size = 300\<rparr>) \<and>
   file_size \<lparr>file_name = ''Makefile'', file_size = 300\<rparr> \<le> 5242880 \<and>
   toLowerCase ''Makefile'' \<notin> set (map tl (keys SUPPORTED_EXTENSIONS)) \<and>
   fileExtension ''Makefile'' = ''.makefile'' \<and>
   handleFileChange \<lparr>file_name = ''Makefile'', file_size = 300\<rparr> (initial None :: unit app) =
     ((initial None)\<lparr>fileError := unsupported_type_error\<rparr>, False) \<and>
   CHR ''.'' \<notin> set (file_name \<lparr>file_name = ''js'', file_size = 10\<rparr>) \<and>
   file_size \<lparr>file_name = ''js'', file_size = 10\<rparr> \<le> 5242880 \<and>
   toLowerCase ''js'' \<in> set (map tl (keys SUPPORTED_EXTENSIONS)) \<and>
   handleFileChange \<lparr>file_name = ''js'', file_size = 10\<rparr> (initial None :: unit app) =
     ((initial None)\<lparr>fileError := [], file := Some \<lparr>file_name = ''js'', file_size = 10\<rparr>,
                      fileLanguage := ''JavaScript''\<rparr>, True)"
  using dotless_name_extension
    [of "\<lparr>file_name = ''Makefile'', file_size = 300\<rparr>" "initial None :: unit app"]
    dotless_name_extension
    [of "\<lparr>file_name = ''js'', file_size = 10\<rparr>" "initial None :: unit app"]
  by (simp add: lower_of_Makefile lower_of_js label_of_js keys_def SUPPORTED_EXTENSIONS_def)

subsection \<open>A read that fails\<close>

text \<open>
  C4. The handler calls \<^verbatim>\<open>setFile\<close> and \<^verbatim>\<open>setFileLanguage\<close> before it starts the read,
  and \<^verbatim>\<open>onerror\<close> writes the file error only. When the read of \<^verbatim>\<open>main.py\<close> fails on
  a fresh page, the read-error message is set, and the file (name and size) and its
  label \<^verbatim>\<open>Python\<close> are installed all the same; \<open>ingest_read_failed\<close> above states this
  for every valid file and every state.
\<close>

theorem decode_failure_keeps_file:
  "ingest \<lparr>file_name = ''main.py'', file_size = 120\<rparr> ReadFailed (initial None :: unit app) =
     (initial None)\<lparr>file := Some \<lparr>file_name = ''main.py'', file_size = 120\<rparr>,
                     fileLanguage := ''Python'', fileError := read_error\<rparr> \<and>
   file (ingest \<lparr>file_name = ''main.py'', file_size = 120\<rparr> ReadFailed
          (initial None :: unit app)) \<noteq> None \<and>
   fileLanguage (ingest \<lparr>file_name = ''main.py'', file_size = 120\<rparr> ReadFailed
          (initial None :: unit app)) \<noteq> []"
proof -
  have "ingest \<lparr>file_name = ''main.py'', file_size = 120\<rparr> ReadFailed (initial None :: unit app) =
     (initial None)\<lparr>file := Some \<lparr>file_name = ''main.py'', file_size = 120\<rparr>,
                     fileLanguage := ''Python'', fileError := read_error\<rparr>"
    by (simp add: ingest_read_failed MAX_FILE_SIZE_value extension_of_main_py label_of_py
        keys_def SUPPORTED_EXTENSIONS_def initial_def)
  then show ?thesis by simp
qed

section \<open>Properties of the credential store\<close>

lemma apiKey_mount: "apiKey (mount stored) = (case stored of None \<Rightarrow> [] | Some k \<Rightarrow> k)"
  by (simp add: mount_def persist_effect_def initial_def setApiKey_def Let_def split: option.splits)

lemma localStorage_mount: "localStorage (mount stored) = stored"
  by (simp add: mount_def persist_effect_def initial_def setApiKey_def Let_def split: option.splits)

lemma key_persisted_mount: "key_persisted (mount stored)"
  by (cases stored) (simp_all add: key_persisted_def apiKey_mount localStorage_mount)

lemma setApiKey_nonempty:
  "v \<noteq> [] \<Longrightarrow> v \<noteq> apiKey st \<Longrightarrow> setApiKey v st = st\<lparr>apiKey := v, localStorage := Some v\<rparr>"
  by (simp add: setApiKey_def persist_effect_def)

lemma setApiKey_empty: "setApiKey [] st = st\<lparr>apiKey := []\<rparr>"
  by (simp add: setApiKey_def persist_effect_def)

lemma handleClearApiKey_eq: "handleClearApiKey st = st\<lparr>apiKey := [], localStorage := None\<rparr>"
  by (simp add: handleClearApiKey_def setApiKey_empty)

lemma key_persisted_setApiKey: "key_persisted st \<Longrightarrow> key_persisted (setApiKey v st)"
  by (simp add: key_persisted_def setApiKey_def persist_effect_def)

lemma credential_cells_handleFileChange:
  "apiKey (fst (handleFileChange f st)) = apiKey st"
  "localStorage (fst (handleFileChange f st)) = localStorage st"
  by (simp_all add: handleFileChange_def Let_def)

lemma credential_cells_reader_settled:
  "apiKey (reader_settled outcome st) = apiKey st"
  "localStorage (reader_settled outcome st) = localStorage st"
  by (cases outcome; simp)+

lemma credential_cells_handleClearFile:
  "apiKey (handleClearFile st) = apiKey st"
  "localStorage (handleClearFile st) = localStorage st"
  by (simp_all add: handleClearFile_def)

lemma credential_cells_click_analyze:
  "apiKey (cells (fst (click_analyze p))) = apiKey (cells p)"
  "localStorage (cells (fst (click_analyze p))) = localStorage (cells p)"
  by (simp_all add: click_analyze_def analyzeCode_of_def)

lemma credential_cells_analyzeCode_settled:
  "apiKey (analyzeCode_settled parse result st) = apiKey st"
  "localStorage (analyzeCode_settled parse result st) = localStorage st"
  by (simp_all add: analyzeCode_settled_def caught_def Let_def
      split: fetch_result.splits response_body.splits parsed.splits)

lemma key_persisted_react:
  "key_persisted (cells p) \<Longrightarrow> key_persisted (cells (react parse e p))"
proof (cases e)
  case (KeyInput v)
  then show "key_persisted (cells p) \<Longrightarrow> key_persisted (cells (react parse e p))"
    by (simp add: key_persisted_setApiKey)
next
  case ClearKeyClicked
  then show "key_persisted (cells p) \<Longrightarrow> key_persisted (cells (react parse e p))"
    by (simp add: key_persisted_def handleClearApiKey_eq)
qed (simp_all add: key_persisted_def credential_cells_handleFileChange
      credential_cells_reader_settled credential_cells_handleClearFile
      credential_cells_click_analyze credential_cells_analyzeCode_settled)

lemma key_persisted_run:
  "key_persisted (cells p) \<Longrightarrow> key_persisted (cells (run parse es p))"
  by (induction es arbitrary: p) (simp_all add: key_persisted_react)

lemma set_then_load:
  "v \<noteq> [] \<Longrightarrow> key_persisted st \<Longrightarrow>
   apiKey (setApiKey v st) = v \<and> localStorage (setApiKey v st) = Some v"
  by (auto simp add: key_persisted_def setApiKey_def persist_effect_def)

text \<open>
  The effect writes the storage entry only when the key is non-empty. After the key
  \<^verbatim>\<open>sk-abc\<close> was typed, emptying the field writes nothing: the entry still holds
  \<^verbatim>\<open>sk-abc\<close>, and the next mount loads it.
\<close>

theorem empty_key_not_persisted_counterexample:
  "localStorage (setApiKey [] (setApiKey ''sk-abc'' (mount None :: unit app))) = Some ''sk-abc'' \<and>
   apiKey (mount (localStorage (setApiKey [] (setApiKey ''sk-abc'' (mount None :: unit app))))
            :: unit app) = ''sk-abc'' \<and>
   apiKey (mount (localStorage (setApiKey [] (setApiKey ''sk-abc'' (mount None :: unit app))))
            :: unit app) \<noteq> []"
proof -
  have "localStorage (setApiKey [] (setApiKey ''sk-abc'' (mount None :: unit app))) = Some ''sk-abc''"
    by (simp add: mount_def initial_def persist_effect_def setApiKey_def Let_def)
  then show ?thesis
    by (simp add: apiKey_mount)
qed

text \<open>
  C5, for non-empty values. In every state the component reaches from a mount, setting
  a non-empty key \<open>v\<close> writes \<open>v\<close> to the storage entry, and a mount on that storage
  has \<open>v\<close> as its key; \<^verbatim>\<open>handleClearApiKey\<close> removes the entry, and a mount on that
  storage has no key.
\<close>

theorem credential_round_trip:
  assumes "v \<noteq> []"
  shows "localStorage (setApiKey v (cells (run parse es (settled (mount stored))))) = Some v \<and>
         apiKey (mount (localStorage
           (setApiKey v (cells (run parse es (settled (mount stored)))))) :: 'j app) = v \<and>
         localStorage (handleClearApiKey (cells (run parse es (settled (mount stored))))) = None \<and>
         apiKey (mount (localStorage
           (handleClearApiKey (cells (run parse es (settled (mount stored)))))) :: 'j app) = []"
proof -
  have "key_persisted (cells (run parse es (settled (mount stored))))"
    by (simp add: key_persisted_run key_persisted_mount settled_def)
  with assms have
    "localStorage (setApiKey v (cells (run parse es (settled (mount stored))))) = Some v"
    by (simp add: set_then_load)
  then show ?thesis
    by (simp add: apiKey_mount handleClearApiKey_eq)
qed

theorem credential_round_trip_witness:
  "''sk-abc'' \<noteq> [] \<and>
   localStorage (setApiKey ''sk-abc''
     (cells (run (\<lambda>s. SyntaxError) [] (settled (mount None :: unit app))))) = Some ''sk-abc'' \<and>
   apiKey (mount (Some ''sk-abc'') :: unit app) = ''sk-abc'' \<and>
   localStorage (handleClearApiKey
     (cells (run (\<lambda>s. SyntaxError) [] (settled (mount None :: unit app))))) = None \<and>
   apiKey (mount None :: unit app) = []"
  using credential_round_trip [of "''sk-abc''" "\<lambda>s. SyntaxError :: unit parsed" "[]" None]
  by (simp add: apiKey_mount)

section \<open>Properties of the analysis client\<close>

subsection \<open>Messages\<close>

lemma analysis_errors_distinct:
  "missing_key_error \<noteq> missing_file_error"
  "parse_error \<noteq> missing_key_error" "parse_error \<noteq> missing_file_error"
  by (simp_all add: missing_key_error_def missing_file_error_def parse_error_def)

lemma parse_error_not_caught: "parse_error \<noteq> ''Error analyzing code: '' @ message"
  by (simp add: parse_error_def)

lemma decimal_500: "decimal 500 = ''500''"
  by (simp add: decimal.simps)

lemma decimal_200: "decimal 200 = ''200''"
  by (simp add: decimal.simps)

subsection \<open>The ways through \<^verbatim>\<open>analyzeCode\<close>\<close>

lemma analyzeCode_no_key:
  "apiKey st = [] \<Longrightarrow> analyzeCode st = (st\<lparr>analysisError := missing_key_error\<rparr>, False)"
  by (simp add: analyzeCode_def)

lemma analyzeCode_no_content:
  "apiKey st \<noteq> [] \<Longrightarrow> fileContent st = [] \<Longrightarrow>
   analyzeCode st = (st\<lparr>analysisError := missing_file_error\<rparr>, False)"
  by (simp add: analyzeCode_def)

lemma analyzeCode_sends:
  "apiKey st \<noteq> [] \<Longrightarrow> fileContent st \<noteq> [] \<Longrightarrow>
   analyzeCode st =
     (st\<lparr>isAnalyzing := True, analysisError := [], analysisResults := None,
         network := network st @ [build_request st]\<rparr>, True)"
  by (simp add: analyzeCode_def)

text \<open>\<^verbatim>\<open>analyzeCode\<close> does not read \<^verbatim>\<open>isAnalyzing\<close>: called with a key and a text, it
  sends a request whatever the flag says. Only the button's attribute keeps it from
  being called.\<close>

lemma analyzeCode_tests_no_flag:
  "apiKey st \<noteq> [] \<Longrightarrow> fileContent st \<noteq> [] \<Longrightarrow>
   network (fst (analyzeCode st)) = network st @ [build_request st]"
  by (simp add: analyzeCode_def)

lemma analyzeCode_of_same: "analyzeCode_of st st = analyzeCode st"
  by (simp add: analyzeCode_of_def analyzeCode_def)

lemma click_analyze_settled:
  "click_analyze (settled st) =
     (if analyze_disabled st then (settled st, False)
      else ((settled st)\<lparr>cells := fst (analyzeCode st)\<rparr>, snd (analyzeCode st)))"
  by (simp add: click_analyze_def settled_def analyzeCode_of_same split: prod.splits)

lemma click_analyze_sent:
  assumes "click_analyze p0 = (p, True)"
  shows "p = p0\<lparr>cells := (cells p0)\<lparr>isAnalyzing := True, analysisError := [],
                   analysisResults := None,
                   network := network (cells p0) @ [build_request (shown p0)]\<rparr>\<rparr>"
  using assms by (auto simp add: click_analyze_def analyzeCode_of_def split: if_splits)

lemma click_analyze_shown_pending:
  "isAnalyzing (shown p) \<Longrightarrow> click_analyze p = (p, False)"
  by (simp add: click_analyze_def analyze_disabled_def)

lemma flag_cells_click_analyze:
  "isAnalyzing (cells p) \<Longrightarrow> isAnalyzing (cells (fst (click_analyze p)))"
  "analysisResults (cells p) = None \<Longrightarrow> analysisResults (cells (fst (click_analyze p))) = None"
  "shown (fst (click_analyze p)) = shown p"
  by (simp_all add: click_analyze_def analyzeCode_of_def)

lemma analyzeCode_settled_not_ok:
  "\<not> response_ok status \<Longrightarrow>
   analyzeCode_settled parse (Responded status statusText body) st =
     st\<lparr>analysisError :=
          ''Error analyzing code: API error: '' @ decimal status @ '' '' @ statusText,
        isAnalyzing := False\<rparr>"
  by (simp add: analyzeCode_settled_def caught_def)

lemma analyzeCode_settled_reply:
  "response_ok status \<Longrightarrow>
   analyzeCode_settled parse (Responded status statusText (ReplyText resultText)) st =
     (case parse (jsonContent resultText) of
        SyntaxError \<Rightarrow> st\<lparr>analysisError := parse_error, isAnalyzing := False\<rparr>
      | Parsed parsedResults \<Rightarrow> st\<lparr>analysisResults := parsedResults, isAnalyzing := False\<rparr>)"
  by (simp add: analyzeCode_settled_def split: parsed.splits)

lemma analyzeCode_settled_rejected:
  "analyzeCode_settled parse (Rejected e) st =
     st\<lparr>analysisError := ''Error analyzing code: '' @ error_message e, isAnalyzing := False\<rparr>"
  by (simp add: analyzeCode_settled_def caught_def)

lemma analyzeCode_settled_json_rejects:
  "response_ok status \<Longrightarrow>
   analyzeCode_settled parse (Responded status statusText (JsonRejects e)) st =
     st\<lparr>analysisError := ''Error analyzing code: '' @ error_message e, isAnalyzing := False\<rparr>"
  by (simp add: analyzeCode_settled_def caught_def)

lemma analyzeCode_settled_no_reply_text:
  "response_ok status \<Longrightarrow>
   analyzeCode_settled parse (Responded status statusText NoReplyText) st =
     st\<lparr>analysisError := parse_error, isAnalyzing := False\<rparr>"
  by (simp add: analyzeCode_settled_def)

lemma analyzeCode_settled_clears_flag:
  "\<not> isAnalyzing (analyzeCode_settled parse result st)"
  by (simp add: analyzeCode_settled_def)

lemma network_analyzeCode_settled:
  "network (analyzeCode_settled parse result st) = network st"
  by (simp add: analyzeCode_settled_def caught_def Let_def
      split: fetch_result.splits response_body.splits parsed.splits)

subsection \<open>While a request is in flight\<close>

lemma flag_cells_reader_settled:
  "isAnalyzing (reader_settled outcome st) = isAnalyzing st"
  "network (reader_settled outcome st) = network st"
  "analysisResults (reader_settled outcome st) = analysisResults st"
  by (cases outcome; simp)+

lemma flag_cells_handleFileChange:
  "isAnalyzing (fst (handleFileChange f st)) = isAnalyzing st"
  "network (fst (handleFileChange f st)) = network st"
  "analysisResults (fst (handleFileChange f st)) = analysisResults st"
  by (simp_all add: handleFileChange_def Let_def)

lemma flag_cells_setApiKey:
  "isAnalyzing (setApiKey v st) = isAnalyzing st"
  "network (setApiKey v st) = network st"
  "analysisResults (setApiKey v st) = analysisResults st"
  by (simp_all add: setApiKey_def persist_effect_def)

lemma flag_cells_handleClearApiKey:
  "isAnalyzing (handleClearApiKey st) = isAnalyzing st"
  "network (handleClearApiKey st) = network st"
  "analysisResults (handleClearApiKey st) = analysisResults st"
  by (simp_all add: handleClearApiKey_def flag_cells_setApiKey)

lemma flag_cells_handleClearFile:
  "isAnalyzing (handleClearFile st) = isAnalyzing st"
  "network (handleClearFile st) = network st"
  "analysisResults (handleClearFile st) = None"
  by (simp_all add: handleClearFile_def)

text \<open>While the flag is set in the cells, no event but the call settling clears it, and
  none installs a result.\<close>

lemma pending_react:
  assumes "isAnalyzing (cells p)" and "\<not> is_fetch_settled e"
  shows "isAnalyzing (cells (react parse e p)) \<and>
         (analysisResults (cells p) = None \<longrightarrow>
            analysisResults (cells (react parse e p)) = None)"
proof (cases e)
  case (FetchSettled result)
  with assms(2) show ?thesis by simp
qed (simp_all add: assms(1) flag_cells_setApiKey flag_cells_handleClearApiKey
      flag_cells_handleFileChange flag_cells_reader_settled flag_cells_handleClearFile
      flag_cells_click_analyze)

lemma pending_run:
  assumes "isAnalyzing (cells p)" and "\<forall>e \<in> set es. \<not> is_fetch_settled e"
  shows "isAnalyzing (cells (run parse es p)) \<and>
         (analysisResults (cells p) = None \<longrightarrow>
            analysisResults (cells (run parse es p)) = None)"
  using assms
proof (induction es arbitrary: p)
  case Nil
  then show ?case by simp
next
  case (Cons e es)
  from Cons.prems have step:
    "isAnalyzing (cells (react parse e p)) \<and>
     (analysisResults (cells p) = None \<longrightarrow>
        analysisResults (cells (react parse e p)) = None)"
    by (intro pending_react) simp_all
  from Cons.prems have "\<forall>e \<in> set es. \<not> is_fetch_settled e" by simp
  with step Cons.IH [of "react parse e p"] show ?case by simp
qed

text \<open>Once a committed render shows the flag, the button is disabled: no event but the
  call settling adds a request, and every later render shows the flag too.\<close>

lemma gated_react:
  assumes "isAnalyzing (cells p)" and "isAnalyzing (shown p)" and "\<not> is_fetch_settled e"
  shows "isAnalyzing (shown (react parse e p)) \<and>
         network (cells (react parse e p)) = network (cells p)"
proof (cases e)
  case AnalyzeClicked
  with assms(2) show ?thesis
    by (simp add: click_analyze_shown_pending)
next
  case (FetchSettled result)
  with assms(3) show ?thesis by simp
qed (simp_all add: assms(1,2) flag_cells_setApiKey flag_cells_handleClearApiKey
      flag_cells_handleFileChange flag_cells_reader_settled flag_cells_handleClearFile)

lemma gated_run:
  assumes "isAnalyzing (cells p)" and "isAnalyzing (shown p)"
    and "\<forall>e \<in> set es. \<not> is_fetch_settled e"
  shows "isAnalyzing (cells (run parse es p)) \<and> isAnalyzing (shown (run parse es p)) \<and>
         network (cells (run parse es p)) = network (cells p)"
  using assms
proof (induction es arbitrary: p)
  case Nil
  then show ?case by simp
next
  case (Cons e es)
  from Cons.prems have quiet: "\<not> is_fetch_settled e" "\<forall>e \<in> set es. \<not> is_fetch_settled e"
    by simp_all
  have 1: "isAnalyzing (cells (react parse e p))"
    using pending_react [OF Cons.prems(1) quiet(1), of parse] by simp
  have 2: "isAnalyzing (shown (react parse e p))"
    "network (cells (react parse e p)) = network (cells p)"
    using gated_react [OF Cons.prems(1,2) quiet(1), of parse] by simp_all
  from Cons.IH [OF 1 2(1) quiet(2)] 2(2) show ?case by simp
qed

lemma run_append: "run parse (es @ es') p = run parse es' (run parse es p)"
  by (induction es arbitrary: p) simp_all

text \<open>
  C7. \<^verbatim>\<open>analyzeCode\<close> tests the key, then the text, before it calls \<^verbatim>\<open>fetch\<close>. With an
  empty key it returns with the missing-key message as the only change and no call made;
  with a key and an empty text it returns with the missing-file message as the only
  change and no call made. The two messages differ.
\<close>

theorem analyze_preconditions:
  "(apiKey st = [] \<longrightarrow>
      analyzeCode st = (st\<lparr>analysisError := missing_key_error\<rparr>, False) \<and>
      network (fst (analyzeCode st)) = network st) \<and>
   (apiKey st \<noteq> [] \<and> fileContent st = [] \<longrightarrow>
      analyzeCode st = (st\<lparr>analysisError := missing_file_error\<rparr>, False) \<and>
      network (fst (analyzeCode st)) = network st) \<and>
   missing_key_error \<noteq> missing_file_error"
  by (simp add: analyzeCode_no_key analyzeCode_no_content analysis_errors_distinct)

theorem analyze_preconditions_witness:
  "apiKey ((initial None :: unit app)\<lparr>fileContent := ''x = 1''\<rparr>) = [] \<and>
   analyzeCode ((initial None :: unit app)\<lparr>fileContent := ''x = 1''\<rparr>) =
     ((initial None)\<lparr>fileContent := ''x = 1'', analysisError := missing_key_error\<rparr>, False) \<and>
   network (fst (analyzeCode ((initial None :: unit app)\<lparr>fileContent := ''x = 1''\<rparr>))) = [] \<and>
   apiKey ((initial None :: unit app)\<lparr>apiKey := ''sk-abc''\<rparr>) \<noteq> [] \<and>
   fileContent ((initial None :: unit app)\<lparr>apiKey := ''sk-abc''\<rparr>) = [] \<and>
   analyzeCode ((initial None :: unit app)\<lparr>apiKey := ''sk-abc''\<rparr>) =
     ((initial None)\<lparr>apiKey := ''sk-abc'', analysisError := missing_file_error\<rparr>, False) \<and>
   network (fst (analyzeCode ((initial None :: unit app)\<lparr>apiKey := ''sk-abc''\<rparr>))) = []"
  using analyze_preconditions [of "(initial None :: unit app)\<lparr>fileContent := ''x = 1''\<rparr>"]
    analyze_preconditions [of "(initial None :: unit app)\<lparr>apiKey := ''sk-abc''\<rparr>"]
  by (simp add: initial_def)

subsection \<open>A sample session\<close>

lemma extension_of_util_js: "fileExtension ''util.js'' = ''.js''"
  by code_simp

lemma ready_reached:
  "run parse
     [KeyInput ''sk-abc'', FileChosen main_py, ReaderSettled (Loaded ''x = 1''), Rendered]
     (settled (mount None)) = settled ready"
  by (simp add: settled_def mount_def initial_def persist_effect_def setApiKey_def Let_def
      main_py_def handleFileChange_def MAX_FILE_SIZE_value extension_of_main_py label_of_py
      keys_def SUPPORTED_EXTENSIONS_def ready_def)

lemma click_analyze_ready:
  "click_analyze (settled ready) =
     (\<lparr>cells = ready\<lparr>isAnalyzing := True,
                     network := [\<lparr>authorization = ''Bearer sk-abc'',
                                  review_language = ''Python'',
                                  user_content = ''x = 1''\<rparr>]\<rparr>,
       shown = ready\<rparr>, True)"
  by (simp add: click_analyze_def settled_def analyze_disabled_def analyzeCode_of_def
      build_request_def ready_def)

lemma build_request_ready:
  "build_request ready =
     \<lparr>authorization = ''Bearer sk-abc'', review_language = ''Python'',
      user_content = ''x = 1''\<rparr>"
  by (simp add: build_request_def ready_def)

lemma network_ready: "network ready = []"
  by (simp add: ready_def)

lemma jsonContent_braces_only: "jsonContent ''{}'' = ''{}''"
  by (simp add: jsonContent_def jsonMatch_def match_fenced_def match_braces_def
      fence_open_def)

subsection \<open>Clicks before and after the render\<close>

text \<open>
  On the page that holds the key and \<^verbatim>\<open>main.py\<close>, the first click sets the flag and sends
  a request. A second click dispatched before the next render is committed finds the
  button as the last render wrote it, enabled, and \<^verbatim>\<open>analyzeCode\<close> does not read the
  flag: a second request is sent while the first is pending.
\<close>

theorem click_before_render_counterexample:
  "isAnalyzing (cells (run (accept_only ''{}'') [AnalyzeClicked] (settled ready))) \<and>
   network (cells (run (accept_only ''{}'') [AnalyzeClicked] (settled ready))) =
     [\<lparr>authorization = ''Bearer sk-abc'', review_language = ''Python'',
       user_content = ''x = 1''\<rparr>] \<and>
   network (cells (run (accept_only ''{}'') [AnalyzeClicked, AnalyzeClicked] (settled ready))) =
     [\<lparr>authorization = ''Bearer sk-abc'', review_language = ''Python'',
       user_content = ''x = 1''\<rparr>,
      \<lparr>authorization = ''Bearer sk-abc'', review_language = ''Python'',
       user_content = ''x = 1''\<rparr>]"
  by (simp add: click_analyze_ready)
     (simp add: click_analyze_def analyze_disabled_def analyzeCode_of_def build_request_def
        ready_def)

text \<open>
  C6, from the render on. Let a click on the analyze button send a request. The flag
  \<^verbatim>\<open>isAnalyzing\<close> is set in the cells that click leaves, with the request added to the
  log, and no event before the call settles clears it. Once a render has been committed
  after the click, whatever events follow before a call settles (further clicks on the
  button, key input, files chosen, reads ending, the clear buttons, further renders),
  the button is disabled, a click on it calls nothing and the log stays as it was at
  that render. However a call settles, the flag is cleared and the log is unchanged.
\<close>

theorem rendered_flag_disables_button:
  assumes "click_analyze p0 = (p, True)"
    and "\<forall>e \<in> set es. \<not> is_fetch_settled e"
    and "\<forall>e \<in> set es'. \<not> is_fetch_settled e"
  shows "isAnalyzing (cells p) \<and>
         network (cells p) = network (cells p0) @ [build_request (shown p0)] \<and>
         isAnalyzing (cells (run parse es p)) \<and>
         isAnalyzing (cells (run parse (es @ Rendered # es') p)) \<and>
         network (cells (run parse (es @ Rendered # es') p)) = network (cells (run parse es p)) \<and>
         click_analyze (run parse (es @ Rendered # es') p) =
           (run parse (es @ Rendered # es') p, False) \<and>
         \<not> isAnalyzing (cells (react parse (FetchSettled result) q)) \<and>
         network (cells (react parse (FetchSettled result) q)) = network (cells q)"
proof -
  have p: "isAnalyzing (cells p)" "network (cells p) = network (cells p0) @ [build_request (shown p0)]"
    using click_analyze_sent [OF assms(1)] by simp_all
  have before: "isAnalyzing (cells (run parse es p))"
    using pending_run [OF p(1) assms(2), of parse] by simp
  define r where "r = react parse Rendered (run parse es p)"
  have r: "isAnalyzing (cells r)" "isAnalyzing (shown r)"
    "network (cells r) = network (cells (run parse es p))"
    using before by (simp_all add: r_def)
  have after: "isAnalyzing (cells (run parse es' r))" "isAnalyzing (shown (run parse es' r))"
    "network (cells (run parse es' r)) = network (cells r)"
    using gated_run [OF r(1,2) assms(3), of parse] by simp_all
  have whole: "run parse (es @ Rendered # es') p = run parse es' r"
    by (simp add: run_append r_def)
  show ?thesis
    by (simp add: p before whole after r(3) click_analyze_shown_pending
        analyzeCode_settled_clears_flag network_analyzeCode_settled)
qed

theorem rendered_flag_disables_button_witness:
  "click_analyze (settled ready :: string page) = (fst (click_analyze (settled ready)), True) \<and>
   \<not> is_fetch_settled AnalyzeClicked \<and> \<not> is_fetch_settled ClearFileClicked \<and>
   network (cells (run (accept_only ''{}'') [AnalyzeClicked] (fst (click_analyze (settled ready))))) =
     [\<lparr>authorization = ''Bearer sk-abc'', review_language = ''Python'',
       user_content = ''x = 1''\<rparr>,
      \<lparr>authorization = ''Bearer sk-abc'', review_language = ''Python'',
       user_content = ''x = 1''\<rparr>] \<and>
   network (cells (run (accept_only ''{}'')
       ([AnalyzeClicked] @ Rendered # [AnalyzeClicked, ClearFileClicked, AnalyzeClicked])
       (fst (click_analyze (settled ready))))) =
     [\<lparr>authorization = ''Bearer sk-abc'', review_language = ''Python'',
       user_content = ''x = 1''\<rparr>,
      \<lparr>authorization = ''Bearer sk-abc'', review_language = ''Python'',
       user_content = ''x = 1''\<rparr>] \<and>
   isAnalyzing (cells (run (accept_only ''{}'')
       ([AnalyzeClicked] @ Rendered # [AnalyzeClicked, ClearFileClicked, AnalyzeClicked])
       (fst (click_analyze (settled ready))))) \<and>
   \<not> isAnalyzing (cells (react (accept_only ''{}'') (FetchSettled (Rejected OtherValue))
       (fst (click_analyze (settled ready)))))"
proof -
  let ?p = "fst (click_analyze (settled ready :: string page))"
  have sent: "click_analyze (settled ready :: string page) = (?p, True)"
    by (simp add: click_analyze_ready)
  have quiet: "\<forall>e \<in> set [AnalyzeClicked]. \<not> is_fetch_settled e"
    "\<forall>e \<in> set [AnalyzeClicked, ClearFileClicked, AnalyzeClicked]. \<not> is_fetch_settled e"
    by simp_all
  have second: "network (cells (run (accept_only ''{}'') [AnalyzeClicked] ?p)) =
     [\<lparr>authorization = ''Bearer sk-abc'', review_language = ''Python'',
       user_content = ''x = 1''\<rparr>,
      \<lparr>authorization = ''Bearer sk-abc'', review_language = ''Python'',
       user_content = ''x = 1''\<rparr>]"
    by (simp add: click_analyze_ready)
       (simp add: click_analyze_def analyze_disabled_def analyzeCode_of_def build_request_def
          ready_def)
  note gate = rendered_flag_disables_button [OF sent quiet,
      of "accept_only ''{}''" "Rejected OtherValue" ?p]
  from gate have later: "network (cells (run (accept_only ''{}'')
       ([AnalyzeClicked] @ Rendered # [AnalyzeClicked, ClearFileClicked, AnalyzeClicked]) ?p)) =
     network (cells (run (accept_only ''{}'') [AnalyzeClicked] ?p))"
    by (elim conjE)
  from gate have flag: "isAnalyzing (cells (run (accept_only ''{}'')
       ([AnalyzeClicked] @ Rendered # [AnalyzeClicked, ClearFileClicked, AnalyzeClicked]) ?p))"
    by (elim conjE)
  from gate have cleared: "\<not> isAnalyzing (cells (react (accept_only ''{}'')
       (FetchSettled (Rejected OtherValue)) ?p))"
    by (elim conjE)
  show ?thesis
  proof (intro conjI)
    show "click_analyze (settled ready :: string page) = (?p, True)"
      by (rule sent)
    show "\<not> is_fetch_settled AnalyzeClicked" "\<not> is_fetch_settled ClearFileClicked"
      by simp_all
    show "network (cells (run (accept_only ''{}'') [AnalyzeClicked] ?p)) =
       [\<lparr>authorization = ''Bearer sk-abc'', review_language = ''Python'',
         user_content = ''x = 1''\<rparr>,
        \<lparr>authorization = ''Bearer sk-abc'', review_language = ''Python'',
         user_content = ''x = 1''\<rparr>]"
      by (rule second)
    show "network (cells (run (accept_only ''{}'')
         ([AnalyzeClicked] @ Rendered # [AnalyzeClicked, ClearFileClicked, AnalyzeClicked]) ?p)) =
       [\<lparr>authorization = ''Bearer sk-abc'', review_language = ''Python'',
         user_content = ''x = 1''\<rparr>,
        \<lparr>authorization = ''Bearer sk-abc'', review_language = ''Python'',
         user_content = ''x = 1''\<rparr>]"
      using later second by (rule trans)
    show "isAnalyzing (cells (run (accept_only ''{}'')
         ([AnalyzeClicked] @ Rendered # [AnalyzeClicked, ClearFileClicked, AnalyzeClicked]) ?p))"
      by (rule flag)
    show "\<not> isAnalyzing (cells (react (accept_only ''{}'')
         (FetchSettled (Rejected OtherValue)) ?p))"
      by (rule cleared)
  qed
qed

text \<open>
  C8. For a response whose status is outside 200 to 299, the continuation sets the
  analysis error to \<^verbatim>\<open>Error analyzing code: API error: \<close> followed by the status in
  decimal, a space and the status text, clears the flag and changes nothing else: the
  state it leaves depends on neither the body nor the parser. The results cell keeps
  its value, which is unset when the response answers a request sent by a click.
\<close>

theorem non_2xx_is_transport_error:
  assumes "status < 200 \<or> 299 < status"
  shows "analyzeCode_settled parse (Responded status statusText body) st =
           st\<lparr>analysisError :=
                ''Error analyzing code: API error: '' @ decimal status @ '' '' @ statusText,
              isAnalyzing := False\<rparr> \<and>
         analysisResults (analyzeCode_settled parse (Responded status statusText body) st) =
           analysisResults st \<and>
         (click_analyze p0 = (p, True) \<and> (\<forall>e \<in> set es. \<not> is_fetch_settled e) \<longrightarrow>
            analysisResults
              (analyzeCode_settled parse (Responded status statusText body)
                 (cells (run parse es p))) =
            None)"
proof -
  from assms have bad: "\<not> response_ok status"
    by (auto simp add: response_ok_def)
  have "analysisResults (cells (run parse es p)) = None"
    if "click_analyze p0 = (p, True)" and "\<forall>e \<in> set es. \<not> is_fetch_settled e"
    using click_analyze_sent [OF that(1)] pending_run [OF _ that(2), of p parse] by simp
  then show ?thesis
    by (simp add: analyzeCode_settled_not_ok [OF bad])
qed

theorem non_2xx_is_transport_error_witness:
  "((500::nat) < 200 \<or> 299 < (500::nat)) \<and>
   click_analyze (settled ready :: string page) = (fst (click_analyze (settled ready)), True) \<and>
   \<not> is_fetch_settled AnalyzeClicked \<and>
   analysisError (analyzeCode_settled (accept_only ''{}'')
       (Responded 500 ''Internal Server Error'' (ReplyText ''{}''))
       (cells (run (accept_only ''{}'') [AnalyzeClicked] (fst (click_analyze (settled ready)))))) =
     ''Error analyzing code: API error: 500 Internal Server Error'' \<and>
   analysisResults (analyzeCode_settled (accept_only ''{}'')
       (Responded 500 ''Internal Server Error'' (ReplyText ''{}''))
       (cells (run (accept_only ''{}'') [AnalyzeClicked] (fst (click_analyze (settled ready)))))) =
     None \<and>
   accept_only ''{}'' (jsonContent ''{}'') = Parsed (Some ''{}'')"
  using non_2xx_is_transport_error
    [of 500 "accept_only ''{}''" "''Internal Server Error''" "ReplyText ''{}''"
        "cells (run (accept_only ''{}'') [AnalyzeClicked] (fst (click_analyze (settled ready))))"
        "settled ready :: string page" "fst (click_analyze (settled ready))" "[AnalyzeClicked]"]
  by (simp add: click_analyze_ready decimal_500 jsonContent_braces_only accept_only_def)
     (simp add: click_analyze_def analyze_disabled_def analyzeCode_of_def ready_def)

subsection \<open>A new file beside an old result\<close>

lemma analysisResults_ingest: "analysisResults (ingest f outcome st) = analysisResults st"
proof (cases "handleFileChange f st")
  case (Pair st' started)
  then have "analysisResults st' = analysisResults st"
    using flag_cells_handleFileChange(3) [of f st] by simp
  with Pair show ?thesis
    by (cases started) (simp_all add: ingest_def flag_cells_reader_settled)
qed

lemma reviewed_reached:
  "run (accept_only ''{}'')
     [AnalyzeClicked, FetchSettled (Responded 200 ''OK'' (ReplyText ''{}''))] (settled ready) =
   \<lparr>cells = ready\<lparr>analysisResults := Some ''{}'',
                   network := [\<lparr>authorization = ''Bearer sk-abc'',
                                review_language = ''Python'',
                                user_content = ''x = 1''\<rparr>]\<rparr>,
     shown = ready\<rparr>"
  apply (simp add: click_analyze_ready analyzeCode_settled_reply response_ok_def
      jsonContent_braces_only accept_only_def)
  apply (simp add: ready_def)
  done

lemma replaced_reached:
  "run (accept_only ''{}'')
     [AnalyzeClicked, FetchSettled (Responded 200 ''OK'' (ReplyText ''{}'')),
      FileChosen util_js, ReaderSettled (Loaded ''let y'')] (settled ready) =
   \<lparr>cells = ready\<lparr>analysisResults := Some ''{}'',
                   network := [\<lparr>authorization = ''Bearer sk-abc'',
                                review_language = ''Python'',
                                user_content = ''x = 1''\<rparr>],
                   file := Some util_js, fileLanguage := ''JavaScript'',
                   fileContent := ''let y''\<rparr>,
     shown = ready\<rparr>"
proof -
  have "run (accept_only ''{}'')
     ([AnalyzeClicked, FetchSettled (Responded 200 ''OK'' (ReplyText ''{}''))] @
      [FileChosen util_js, ReaderSettled (Loaded ''let y'')]) (settled ready) =
   \<lparr>cells = ready\<lparr>analysisResults := Some ''{}'',
                   network := [\<lparr>authorization = ''Bearer sk-abc'',
                                review_language = ''Python'',
                                user_content = ''x = 1''\<rparr>],
                   file := Some util_js, fileLanguage := ''JavaScript'',
                   fileContent := ''let y''\<rparr>,
     shown = ready\<rparr>"
    unfolding run_append reviewed_reached
    apply (simp add: handleFileChange_def MAX_FILE_SIZE_value util_js_def extension_of_util_js
        label_of_js keys_def SUPPORTED_EXTENSIONS_def)
    apply (simp add: ready_def)
    done
  then show ?thesis by simp
qed

text \<open>
  C3. \<^verbatim>\<open>handleFileChange\<close> and the reader's callbacks never write the results cell
  (\<open>analysisResults_ingest\<close>); only \<^verbatim>\<open>handleClearFile\<close> and \<^verbatim>\<open>analyzeCode\<close> reset it. On
  the page that holds the key and \<^verbatim>\<open>main.py\<close>, an analysis returns a result; then
  \<^verbatim>\<open>util.js\<close> is chosen and read. The cells now hold \<^verbatim>\<open>util.js\<close> and its text beside
  the result of the analysis of \<^verbatim>\<open>main.py\<close>.
\<close>

theorem new_file_keeps_old_result:
  "analysisResults (cells (run (accept_only ''{}'')
      [AnalyzeClicked, FetchSettled (Responded 200 ''OK'' (ReplyText ''{}''))] (settled ready)))
     = Some ''{}'' \<and>
   file (cells (run (accept_only ''{}'')
      [AnalyzeClicked, FetchSettled (Responded 200 ''OK'' (ReplyText ''{}''))] (settled ready)))
     = Some main_py \<and>
   analysisResults (cells (run (accept_only ''{}'')
      [AnalyzeClicked, FetchSettled (Responded 200 ''OK'' (ReplyText ''{}'')),
       FileChosen util_js, ReaderSettled (Loaded ''let y'')] (settled ready)))
     = Some ''{}'' \<and>
   file (cells (run (accept_only ''{}'')
      [AnalyzeClicked, FetchSettled (Responded 200 ''OK'' (ReplyText ''{}'')),
       FileChosen util_js, ReaderSettled (Loaded ''let y'')] (settled ready)))
     = Some util_js \<and>
   fileContent (cells (run (accept_only ''{}'')
      [AnalyzeClicked, FetchSettled (Responded 200 ''OK'' (ReplyText ''{}'')),
       FileChosen util_js, ReaderSettled (Loaded ''let y'')] (settled ready)))
     = ''let y''"
  unfolding reviewed_reached replaced_reached by (simp add: ready_def)

section \<open>Properties of the payload search\<close>

subsection \<open>The leftmost occurrence of a pattern\<close>

lemma split_at_first_Some:
  "split_at_first pat t = Some (a, b) \<Longrightarrow> t = a @ pat @ b"
proof (induction t arbitrary: a)
  case Nil
  then show ?case by (simp split: if_splits)
next
  case (Cons c cs)
  show ?case
  proof (cases "prefix pat (c # cs)")
    case True
    with Cons.prems have ab: "a = []" "b = drop (length pat) (c # cs)" by simp_all
    from True obtain zs where zs: "c # cs = pat @ zs" by (auto simp add: prefix_def)
    have "drop (length pat) (c # cs) = zs" unfolding zs by simp
    with ab zs show ?thesis by simp
  next
    case False
    with Cons.prems obtain a' where "split_at_first pat cs = Some (a', b)" and "a = c # a'"
      by auto
    with Cons.IH show ?thesis by simp
  qed
qed

lemma split_at_first_None: "split_at_first pat t = None \<longleftrightarrow> \<not> sublist pat t"
  by (induction t) (auto simp add: sublist_Cons_right)

lemma split_at_first_leftmost:
  "split_at_first pat t = Some (a, b) \<Longrightarrow> t = a' @ pat @ b' \<Longrightarrow> length a \<le> length a'"
proof (induction t arbitrary: a a')
  case Nil
  then show ?case by (simp split: if_splits)
next
  case (Cons c cs)
  show ?case
  proof (cases "prefix pat (c # cs)")
    case True
    with Cons.prems(1) have "a = []" by simp
    then show ?thesis by simp
  next
    case False
    with Cons.prems(1) obtain a0 where a0: "split_at_first pat cs = Some (a0, b)" "a = c # a0"
      by auto
    from False Cons.prems(2) have "a' \<noteq> []"
      by (auto simp add: prefix_def)
    with Cons.prems(2) obtain a1 where a1: "a' = c # a1" "cs = a1 @ pat @ b'"
      by (cases a') auto
    from Cons.IH [OF a0(1) a1(2)] a0(2) a1(1) show ?thesis by simp
  qed
qed

lemma prefix_within:
  assumes "prefix pat (xs @ ys)" and "length pat \<le> length xs"
  shows "prefix pat xs"
  using assms by (metis prefix_length_prefix prefixI)

lemma split_at_first_found:
  assumes "pat \<noteq> []" and "\<not> sublist pat (a @ butlast pat)"
  shows "split_at_first pat (a @ pat @ b) = Some (a, b)"
  using assms(2)
proof (induction a)
  case Nil
  from assms(1) obtain x xs where "pat = x # xs" by (cases pat) auto
  then show ?case by simp
next
  case (Cons x a)
  have "\<not> prefix pat (x # a @ pat @ b)"
  proof
    assume p: "prefix pat (x # a @ pat @ b)"
    have "x # a @ pat @ b = (x # a @ butlast pat) @ (last pat # b)"
      using assms(1) by simp
    with p have "prefix pat ((x # a @ butlast pat) @ (last pat # b))" by simp
    moreover have "length pat \<le> length (x # a @ butlast pat)" by simp
    ultimately have "prefix pat (x # a @ butlast pat)" by (rule prefix_within)
    with Cons.prems show False by auto
  qed
  moreover from Cons.prems have "\<not> sublist pat (a @ butlast pat)"
    by (simp add: sublist_Cons_right)
  ultimately show ?case using Cons.IH by simp
qed

subsection \<open>The two expressions\<close>

lemma fence_nonempty: "fence_open \<noteq> []" "fence_close \<noteq> []"
  by (simp_all add: fence_open_def fence_close_def)

lemma match_fenced_found:
  assumes "\<not> sublist fence_open (before @ butlast fence_open)"
    and "\<not> sublist fence_close (inner @ butlast fence_close)"
  shows "match_fenced (before @ fence_open @ inner @ fence_close @ after) =
           Some \<lparr>matched = fence_open @ inner @ fence_close, group1 = Some inner\<rparr>"
  using split_at_first_found [OF fence_nonempty(1) assms(1), of "inner @ fence_close @ after"]
    split_at_first_found [OF fence_nonempty(2) assms(2), of after]
  by (simp add: match_fenced_def)

lemma match_fenced_Some:
  assumes "match_fenced t = Some m"
  shows "\<exists>before inner after. t = before @ fence_open @ inner @ fence_close @ after \<and>
           m = \<lparr>matched = fence_open @ inner @ fence_close, group1 = Some inner\<rparr>"
proof -
  from assms obtain before rest inner after where
    1: "split_at_first fence_open t = Some (before, rest)" and
    2: "split_at_first fence_close rest = Some (inner, after)" and
    m: "m = \<lparr>matched = fence_open @ inner @ fence_close, group1 = Some inner\<rparr>"
    by (auto simp add: match_fenced_def split: option.splits prod.splits)
  from split_at_first_Some [OF 1] split_at_first_Some [OF 2]
  have "t = before @ fence_open @ inner @ fence_close @ after" by simp
  with m show ?thesis by blast
qed

lemma match_fenced_None: "match_fenced t = None \<longleftrightarrow> \<not> has_fenced_block t"
proof
  assume none: "match_fenced t = None"
  show "\<not> has_fenced_block t"
  proof
    assume "has_fenced_block t"
    then obtain before inner after where
      t: "t = before @ fence_open @ inner @ fence_close @ after"
      by (auto simp add: has_fenced_block_def)
    then have "sublist fence_open t" by simp
    then obtain a rest where a: "split_at_first fence_open t = Some (a, rest)"
      using split_at_first_None [of fence_open t] by (cases "split_at_first fence_open t") auto
    from split_at_first_leftmost [OF a t] have le: "length a \<le> length before" .
    from split_at_first_Some [OF a] have t': "t = a @ fence_open @ rest" .
    have rest: "rest = drop (length a + length fence_open) t"
      by (subst t') simp
    have "drop (length before - length a) rest =
          drop (length before - length a + (length a + length fence_open)) t"
      unfolding rest by (rule drop_drop)
    also have "length before - length a + (length a + length fence_open) =
          length before + length fence_open"
      using le by simp
    also have "drop (length before + length fence_open) t = inner @ fence_close @ after"
      by (subst t) simp
    finally have "drop (length before - length a) rest = inner @ fence_close @ after" .
    then have "sublist (inner @ fence_close @ after) rest"
      by (metis sublist_drop)
    moreover have "sublist fence_close (inner @ fence_close @ after)" by simp
    ultimately have "sublist fence_close rest"
      by (rule sublist_order.order.trans [rotated])
    then have "split_at_first fence_close rest \<noteq> None"
      by (simp add: split_at_first_None)
    with a none show False
      by (auto simp add: match_fenced_def)
  qed
next
  assume "\<not> has_fenced_block t"
  then show "match_fenced t = None"
    using match_fenced_Some [of t] by (cases "match_fenced t") (auto simp add: has_fenced_block_def)
qed

lemma dropWhile_until:
  "c \<notin> set xs \<Longrightarrow> dropWhile (\<lambda>x. x \<noteq> c) (xs @ c # ys) = c # ys"
  by (induction xs) auto

lemma match_braces_found:
  assumes "CHR ''{'' \<notin> set before" and "CHR ''}'' \<notin> set after"
  shows "match_braces (before @ CHR ''{'' # mid @ CHR ''}'' # after) =
           Some \<lparr>matched = CHR ''{'' # mid @ [CHR ''}''], group1 = None\<rparr>"
proof -
  have "dropWhile (\<lambda>c. c \<noteq> CHR ''{'') (before @ CHR ''{'' # mid @ CHR ''}'' # after) =
        CHR ''{'' # mid @ CHR ''}'' # after"
    using assms(1) by (rule dropWhile_until)
  moreover have "rev (dropWhile (\<lambda>c. c \<noteq> CHR ''}'') (rev (mid @ CHR ''}'' # after))) =
        mid @ [CHR ''}'']"
    using assms(2) dropWhile_until [of "CHR ''}''" "rev after" "rev mid"] by simp
  ultimately show ?thesis
    by (simp add: match_braces_def split: list.splits)
qed

lemma match_braces_Some:
  assumes "match_braces t = Some m"
  shows "\<exists>before mid after. t = before @ CHR ''{'' # mid @ CHR ''}'' # after \<and>
           CHR ''{'' \<notin> set before \<and> CHR ''}'' \<notin> set after \<and>
           m = \<lparr>matched = CHR ''{'' # mid @ [CHR ''}''], group1 = None\<rparr>"
proof -
  define P where "P = (\<lambda>c. c \<noteq> CHR ''{'')"
  define Q where "Q = (\<lambda>c. c \<noteq> CHR ''}'')"
  obtain brace rest where d: "dropWhile P t = brace # rest"
    using assms unfolding P_def
    by (cases "dropWhile (\<lambda>c. c \<noteq> CHR ''{'') t") (simp_all add: match_braces_def)
  have body: "rev (dropWhile Q (rev rest)) \<noteq> []"
    using assms d unfolding P_def Q_def
    by (cases "rev (dropWhile (\<lambda>c. c \<noteq> CHR ''}'') (rev rest))")
       (simp_all add: match_braces_def)
  have m: "m = \<lparr>matched = brace # rev (dropWhile Q (rev rest)), group1 = None\<rparr>"
    using assms d unfolding P_def Q_def
    by (cases "rev (dropWhile (\<lambda>c. c \<noteq> CHR ''}'') (rev rest))")
       (simp_all add: match_braces_def)
  have "\<not> P (hd (dropWhile P t))"
    using d hd_dropWhile [of P t] by simp
  with d have brace: "brace = CHR ''{''" by (simp add: P_def)
  have t: "t = takeWhile P t @ CHR ''{'' # rest"
    using d brace takeWhile_dropWhile_id [of P t] by simp
  from body obtain x tail where x: "dropWhile Q (rev rest) = x # tail"
    by (cases "dropWhile Q (rev rest)") auto
  then have "\<not> Q (hd (dropWhile Q (rev rest)))"
    using hd_dropWhile [of Q "rev rest"] by simp
  with x have xb: "x = CHR ''}''" by (simp add: Q_def)
  have "rev rest = takeWhile Q (rev rest) @ CHR ''}'' # tail"
    using x xb takeWhile_dropWhile_id [of Q "rev rest"] by simp
  then have "rev (rev rest) = rev (takeWhile Q (rev rest) @ CHR ''}'' # tail)"
    by simp
  then have rest: "rest = rev tail @ CHR ''}'' # rev (takeWhile Q (rev rest))"
    by simp
  have "CHR ''{'' \<notin> set (takeWhile P t)"
    by (auto simp add: P_def dest: set_takeWhileD)
  moreover have "CHR ''}'' \<notin> set (rev (takeWhile Q (rev rest)))"
    by (auto simp add: Q_def dest: set_takeWhileD)
  moreover have "t = takeWhile P t @ CHR ''{'' # rev tail @ CHR ''}'' # rev (takeWhile Q (rev rest))"
    using t rest by simp
  moreover have "m = \<lparr>matched = CHR ''{'' # rev tail @ [CHR ''}''], group1 = None\<rparr>"
    using m brace x xb by simp
  ultimately show ?thesis by blast
qed

lemma closing_brace_after_first_opening:
  "CHR ''}'' \<in> set (tl (dropWhile (\<lambda>c. c \<noteq> CHR ''{'')
                          (before @ CHR ''{'' # mid @ CHR ''}'' # after)))"
  by (induction before) auto

lemma match_braces_None: "match_braces t = None \<longleftrightarrow> \<not> has_brace_span t"
proof
  assume none: "match_braces t = None"
  show "\<not> has_brace_span t"
  proof
    assume "has_brace_span t"
    then obtain before mid after where t: "t = before @ CHR ''{'' # mid @ CHR ''}'' # after"
      by (auto simp add: has_brace_span_def)
    have in_tl: "CHR ''}'' \<in> set (tl (dropWhile (\<lambda>c. c \<noteq> CHR ''{'') t))"
      unfolding t by (rule closing_brace_after_first_opening)
    then obtain brace rest where d: "dropWhile (\<lambda>c. c \<noteq> CHR ''{'') t = brace # rest"
      by (cases "dropWhile (\<lambda>c. c \<noteq> CHR ''{'') t") auto
    with in_tl have "CHR ''}'' \<in> set (rev rest)" by simp
    then have "dropWhile (\<lambda>c. c \<noteq> CHR ''}'') (rev rest) \<noteq> []"
      by (auto simp add: dropWhile_eq_Nil_conv)
    with d none show False
      by (auto simp add: match_braces_def split: list.splits)
  qed
next
  assume "\<not> has_brace_span t"
  then show "match_braces t = None"
    using match_braces_Some [of t]
    by (cases "match_braces t") (auto simp add: has_brace_span_def)
qed

subsection \<open>The span that is parsed\<close>

lemma jsonContent_fenced:
  assumes "\<not> sublist fence_open (before @ butlast fence_open)"
    and "\<not> sublist fence_close (inner @ butlast fence_close)"
  shows "jsonContent (before @ fence_open @ inner @ fence_close @ after) =
           (if inner \<noteq> [] then inner else fence_open @ fence_close)"
  by (simp add: jsonContent_def jsonMatch_def match_fenced_found [OF assms])

lemma jsonContent_braces:
  assumes "\<not> has_fenced_block (before @ CHR ''{'' # mid @ CHR ''}'' # after)"
    and "CHR ''{'' \<notin> set before" and "CHR ''}'' \<notin> set after"
  shows "jsonContent (before @ CHR ''{'' # mid @ CHR ''}'' # after) = CHR ''{'' # mid @ [CHR ''}'']"
  using assms(1) match_braces_found [OF assms(2,3), of mid]
  by (simp add: jsonContent_def jsonMatch_def match_fenced_None [symmetric])

lemma jsonContent_whole:
  assumes "\<not> has_fenced_block t" and "\<not> has_brace_span t"
  shows "jsonContent t = t"
  using assms
  by (simp add: jsonContent_def jsonMatch_def match_fenced_None [symmetric]
      match_braces_None [symmetric])

subsection \<open>Sample replies\<close>

lemma first_fences_in_sample:
  "\<not> sublist fence_open (''Here: '' @ butlast fence_open)"
  "\<not> sublist fence_close (''{}'' @ butlast fence_close)"
  "\<not> sublist fence_open ([] @ butlast fence_open)"
  "\<not> sublist fence_close ([] @ butlast fence_close)"
  by (simp_all add: fence_open_def fence_close_def sublist_code)

text \<open>A fenced block with nothing between its fences: the group is the empty string,
  which is falsy, and the span is the block with its fences.\<close>

lemma empty_fenced_block_kept_whole:
  "jsonContent (fence_open @ fence_close) = fence_open @ fence_close"
  using jsonContent_fenced [of "[]" "[]" "[]"] first_fences_in_sample(3,4) by simp

lemma no_fence_in_two_objects: "\<not> has_fenced_block ''Sure: {} and {}.''"
  unfolding match_fenced_None [symmetric]
  by (simp add: match_fenced_def fence_open_def)

lemma no_fence_in_bare_objects: "\<not> has_fenced_block ''{} and {}''"
  unfolding match_fenced_None [symmetric]
  by (simp add: match_fenced_def fence_open_def)

lemma no_payload_in_prose:
  "\<not> has_fenced_block ''no issues''" "\<not> has_brace_span ''no issues''"
  unfolding match_fenced_None [symmetric] match_braces_None [symmetric]
  by (simp_all add: match_fenced_def match_braces_def fence_open_def)

text \<open>
  The reply \<^verbatim>\<open>{} and {}\<close> has no fenced block. Its first top-level \<^verbatim>\<open>{...}\<close> span is
  \<^verbatim>\<open>{}\<close>, which a JSON parser accepts. The second expression is greedy and matches up
  to the last closing brace, so the code parses the whole reply, which no JSON parser
  accepts, and the parse error is set.
\<close>

theorem greedy_brace_span_counterexample:
  "\<not> has_fenced_block ''{} and {}'' \<and>
   first_top_level_span ''{} and {}'' = Some ''{}'' \<and>
   jsonContent ''{} and {}'' = ''{} and {}'' \<and>
   accept_only ''{}'' ''{}'' = Parsed (Some ''{}'') \<and>
   analyzeCode_settled (accept_only ''{}'') (Responded 200 ''OK'' (ReplyText ''{} and {}''))
     (cells (fst (click_analyze (settled ready)))) =
     (cells (fst (click_analyze (settled ready))))\<lparr>analysisError := parse_error, isAnalyzing := False\<rparr>"
proof -
  have span: "first_top_level_span ''{} and {}'' = Some ''{}''"
    by (simp add: first_top_level_span_def)
  have content: "jsonContent ''{} and {}'' = ''{} and {}''"
    using jsonContent_braces [OF _ _ _, of "[]" "''} and {''" "[]"] no_fence_in_bare_objects
    by simp
  show ?thesis
    by (simp add: no_fence_in_bare_objects span content accept_only_def
        analyzeCode_settled_reply response_ok_def)
qed

text \<open>
  C1, with the spans the two expressions match. For a response with a status from 200
  to 299 that carries a reply text:
  \<^item> when the text has an opening fence and a closing fence after it, the span is the
    text between the first opening fence and the first closing fence after it; when
    that text is empty, the span is the block with its two fences;
  \<^item> when the text has no fenced block and has an opening brace with a closing brace
    after it, the span runs from the first opening brace to the last closing brace;
  \<^item> when the text has neither, the span is the whole text;
  \<^item> the span is parsed; when the parser throws, the parse error is set, the flag is
    cleared and nothing else changes; when it returns a value, the value becomes the
    result and the flag is cleared;
  \<^item> the parse error differs from every message of the outer \<^verbatim>\<open>catch\<close> clause, which
    reports the transport errors.
\<close>

theorem reply_payload_located_and_parsed:
  assumes "200 \<le> status \<and> status \<le> 299"
  shows
    "(\<not> sublist fence_open (before @ butlast fence_open) \<and>
      \<not> sublist fence_close (inner @ butlast fence_close) \<longrightarrow>
        jsonContent (before @ fence_open @ inner @ fence_close @ after) =
          (if inner \<noteq> [] then inner else fence_open @ fence_close)) \<and>
     (\<not> has_fenced_block (before @ CHR ''{'' # mid @ CHR ''}'' # after) \<and>
      CHR ''{'' \<notin> set before \<and> CHR ''}'' \<notin> set after \<longrightarrow>
        jsonContent (before @ CHR ''{'' # mid @ CHR ''}'' # after) =
          CHR ''{'' # mid @ [CHR ''}'']) \<and>
     (\<not> has_fenced_block t \<and> \<not> has_brace_span t \<longrightarrow> jsonContent t = t) \<and>
     (parse (jsonContent t) = SyntaxError \<longrightarrow>
        analyzeCode_settled parse (Responded status statusText (ReplyText t)) st =
          st\<lparr>analysisError := parse_error, isAnalyzing := False\<rparr>) \<and>
     (parse (jsonContent t) = Parsed v \<longrightarrow>
        analyzeCode_settled parse (Responded status statusText (ReplyText t)) st =
          st\<lparr>analysisResults := v, isAnalyzing := False\<rparr>) \<and>
     parse_error \<noteq> ''Error analyzing code: '' @ message"
proof -
  from assms have ok: "response_ok status"
    by (simp add: response_ok_def)
  show ?thesis
    using parse_error_not_caught [of message]
    by (simp add: jsonContent_fenced jsonContent_braces jsonContent_whole
        analyzeCode_settled_reply [OF ok])
qed

theorem reply_payload_located_and_parsed_witness:
  "((200::nat) \<le> 200 \<and> (200::nat) \<le> 299) \<and>
   \<not> sublist fence_open (''Here: '' @ butlast fence_open) \<and>
   \<not> sublist fence_close (''{}'' @ butlast fence_close) \<and>
   jsonContent (''Here: '' @ fence_open @ ''{}'' @ fence_close @ ''!'') = ''{}'' \<and>
   \<not> has_fenced_block ''Sure: {} and {}.'' \<and>
   jsonContent ''Sure: {} and {}.'' = ''{} and {}'' \<and>
   \<not> has_fenced_block ''no issues'' \<and> \<not> has_brace_span ''no issues'' \<and>
   jsonContent ''no issues'' = ''no issues'' \<and>
   accept_only ''{}'' (jsonContent ''no issues'') = SyntaxError \<and>
   analyzeCode_settled (accept_only ''{}'') (Responded 200 ''OK'' (ReplyText ''no issues''))
     (cells (fst (click_analyze (settled ready)))) =
     (cells (fst (click_analyze (settled ready))))\<lparr>analysisError := parse_error, isAnalyzing := False\<rparr> \<and>
   accept_only ''{}'' (jsonContent (''Here: '' @ fence_open @ ''{}'' @ fence_close @ ''!'')) =
     Parsed (Some ''{}'') \<and>
   analyzeCode_settled (accept_only ''{}'')
     (Responded 200 ''OK'' (ReplyText (''Here: '' @ fence_open @ ''{}'' @ fence_close @ ''!'')))
     (cells (fst (click_analyze (settled ready)))) =
     (cells (fst (click_analyze (settled ready))))\<lparr>analysisResults := Some ''{}'', isAnalyzing := False\<rparr>"
proof -
  note fenced_case = reply_payload_located_and_parsed
    [where status = 200 and before = "''Here: ''" and inner = "''{}''" and after = "''!''"
       and t = "''Here: '' @ fence_open @ ''{}'' @ fence_close @ ''!''"
       and parse = "accept_only ''{}''" and statusText = "''OK''"
       and st = "cells (fst (click_analyze (settled ready)))" and v = "Some ''{}''"]
  note braces_case = reply_payload_located_and_parsed
    [where status = 200 and before = "''Sure: ''" and mid = "''} and {''" and after = "''.''"
       and t = "''no issues''"
       and parse = "accept_only ''{}''" and statusText = "''OK''"
       and st = "cells (fst (click_analyze (settled ready)))"]
  have fenced: "jsonContent (''Here: '' @ fence_open @ ''{}'' @ fence_close @ ''!'') = ''{}''"
    using fenced_case first_fences_in_sample by simp
  have braces: "jsonContent ''Sure: {} and {}.'' = ''{} and {}''"
    using braces_case no_fence_in_two_objects by simp
  have whole: "jsonContent ''no issues'' = ''no issues''"
    using braces_case no_payload_in_prose by simp
  have failed: "analyzeCode_settled (accept_only ''{}'')
      (Responded 200 ''OK'' (ReplyText ''no issues'')) (cells (fst (click_analyze (settled ready)))) =
     (cells (fst (click_analyze (settled ready))))\<lparr>analysisError := parse_error, isAnalyzing := False\<rparr>"
    using braces_case whole by (simp add: accept_only_def)
  have parsed: "analyzeCode_settled (accept_only ''{}'')
     (Responded 200 ''OK'' (ReplyText (''Here: '' @ fence_open @ ''{}'' @ fence_close @ ''!'')))
     (cells (fst (click_analyze (settled ready)))) =
     (cells (fst (click_analyze (settled ready))))\<lparr>analysisResults := Some ''{}'', isAnalyzing := False\<rparr>"
    using fenced_case fenced by (simp add: accept_only_def)
  show ?thesis
    using first_fences_in_sample no_fence_in_two_objects no_payload_in_prose
      fenced braces whole failed parsed
    by (simp add: accept_only_def)
qed

end
